theory Spec2Isabelle
  imports Complex_Main "HOL-Library.Sublist"
begin

section \<open>Conventions of the embedding\<close>

text \<open>
  The repository is a set of TypeScript services: Express request handlers, a geofence
  service, a mocked embedding/chat service and a blockchain anchoring service. The
  embedding follows the source function by function.

  \<^item> A JavaScript \<open>number\<close> is a \<^typ>\<open>real\<close>; only equality, order and the field
    operations are used on it. Arithmetic is exact here, where the code computes in binary
    floating point: a computed score (\<open>calculateConfidence\<close>, \<open>calculateSafetyScore\<close>)
    may differ from the code's in its last digits, and no property below depends on such
    a value.
  \<^item> A JavaScript string is a \<^typ>\<open>string\<close>.
  \<^item> A value that may be \<open>undefined\<close> or \<open>null\<close> is an \<open>option\<close>.
  \<^item> What a function does to the outside world (a database query, a socket event, a log
    line, the HTTP response) is appended to a trace of \<open>effect\<close>s, in program order.
  \<^item> What the outside world answers (the database, the push service, the chain, the
    clock, the random-number source, the process environment) is read from a record of
    answers, so that every function of the model is a function of its arguments.
\<close>

type_synonym number = real

subsection \<open>The random-number source\<close>

text \<open>
  \<open>Math.random()\<close>: the source is the sequence of numbers it is going to return and
  the count of numbers already taken.
\<close>

record random_source =
  draws :: "nat \<Rightarrow> number"
  used :: nat

definition Math_random :: "random_source \<Rightarrow> number \<times> random_source" where
  "Math_random g = (draws g (used g), g\<lparr>used := Suc (used g)\<rparr>)"

text \<open>A source that always hands out the same number, for concrete evaluations.\<close>

definition constant_source :: "number \<Rightarrow> random_source" where
  "constant_source c = \<lparr>draws = (\<lambda>k. c), used = 0\<rparr>"

text \<open>\<open>xs.map(() => Math.random())\<close>: one draw per element, in index order.\<close>

fun map_random :: "'a list \<Rightarrow> random_source \<Rightarrow> number list \<times> random_source" where
  "map_random [] g = ([], g)"
| "map_random (x # xs) g =
     (case Math_random g of (r, g') \<Rightarrow>
        (case map_random xs g' of (rs, g'') \<Rightarrow> (r # rs, g'')))"

section \<open>The embedding service (mock)\<close>

text \<open>
  \<^verbatim>\<open>export async function generateEmbedding(text: string): Promise<number[]> {
    return new Array(1536).fill(0).map(() => Math.random());
  }\<close>
\<close>

definition generateEmbedding :: "string \<Rightarrow> random_source \<Rightarrow> number list \<times> random_source" where
  "generateEmbedding text g = map_random (replicate 1536 (0::number)) g"

record geo_location =
  loc_latitude :: number
  loc_longitude :: number
  loc_name :: "string option"

record search_options =
  opt_limit :: "number option"
  opt_threshold :: "number option"
  opt_location :: "geo_location option"
  opt_type :: "string option"

text \<open>The \<open>metadata?: any\<close> of a document, with the fields the service reads.\<close>

record doc_metadata =
  meta_type :: "string option"
  meta_category :: "string option"
  meta_name :: "string option"
  meta_safetyScore :: "number option"
  meta_rating :: "number option"
  meta_distance :: "number option"

record document =
  doc_id :: string
  doc_content :: string
  doc_similarity :: number
  doc_metadata :: "doc_metadata option"

text \<open>
  \<^verbatim>\<open>export async function searchSimilarDocuments(embedding, options?) {
    return [{ id: 'doc1', content: 'Sample document content for testing',
              similarity: 0.85,
              metadata: { type: 'place', category: 'tourist_attraction' } }];
  }\<close>
\<close>

definition searchSimilarDocuments :: "number list \<Rightarrow> search_options option \<Rightarrow> document list" where
  "searchSimilarDocuments embedding options =
     [\<lparr>doc_id = ''doc1'',
       doc_content = ''Sample document content for testing'',
       doc_similarity = 85 / 100,
       doc_metadata = Some \<lparr>meta_type = Some ''place'',
                             meta_category = Some ''tourist_attraction'',
                             meta_name = None, meta_safetyScore = None,
                             meta_rating = None, meta_distance = None\<rparr>\<rparr>]"

section \<open>JavaScript strings\<close>

text \<open>
  \<open>s.replace(pattern, replacement)\<close> with a string pattern replaces the first
  occurrence only. (The replacement strings of this code base are empty, so the
  \<open>$\<close>-patterns of the replacement are not modelled.)
\<close>

fun replace_js :: "string \<Rightarrow> string \<Rightarrow> string \<Rightarrow> string" where
  "replace_js pat rep [] = (if pat = [] then rep else [])"
| "replace_js pat rep (c # cs) =
     (if prefix pat (c # cs) then rep @ drop (length pat) (c # cs)
      else c # replace_js pat rep cs)"

text \<open>
  \<open>s.split(sep)\<close> for a non-empty separator: the string is cut at the leftmost
  occurrences of the separator, which do not overlap; a string without the separator
  is returned whole, as the only element.
\<close>

fun split_js :: "string \<Rightarrow> string \<Rightarrow> string list" where
  "split_js sep [] = [[]]"
| "split_js sep (c # cs) =
     (if prefix sep (c # cs) then [] # split_js sep (drop (length sep - 1) cs)
      else (case split_js sep cs of
              [] \<Rightarrow> [[c]]
            | t # ts \<Rightarrow> (c # t) # ts))"

text \<open>\<open>xs.join(sep)\<close>.\<close>

fun join_js :: "string \<Rightarrow> string list \<Rightarrow> string" where
  "join_js sep [] = []"
| "join_js sep [x] = x"
| "join_js sep (x # y # ys) = x @ sep @ join_js sep (y # ys)"

text \<open>
  \<open>s.trim()\<close> removes white space at both ends: tab, line feed, vertical tab, form
  feed, carriage return, space and the no-break space (the white space of the
  code points below 256).
\<close>

definition is_whitespace :: "char \<Rightarrow> bool" where
  "is_whitespace c = (c \<in> set [CHR 0x09, CHR 0x0A, CHR 0x0B, CHR 0x0C, CHR 0x0D, CHR 0x20, CHR 0xA0])"

definition trim_js :: "string \<Rightarrow> string" where
  "trim_js s = rev (dropWhile is_whitespace (rev (dropWhile is_whitespace s)))"

text \<open>
  The text of a number, as \<open>`${x}`\<close> writes it: never empty, and made of decimal
  digits, a point, a sign, an exponent mark, or the words \<open>Infinity\<close> and \<open>NaN\<close>.
\<close>

definition number_text :: "string \<Rightarrow> bool" where
  "number_text s = (s \<noteq> [] \<and> list_all (\<lambda>c. c \<in> set ''0123456789.e+-InfityNa'') s)"

text \<open>Decimal digits of a natural number, for the integers the templates print.\<close>

fun digit_char :: "nat \<Rightarrow> char" where
  "digit_char n = (''0123456789'' ! (n mod 10))"

fun show_nat :: "nat \<Rightarrow> string" where
  "show_nat n = (if n < 10 then [digit_char n] else show_nat (n div 10) @ [digit_char n])"

declare show_nat.simps [simp del]

section \<open>Effects, awaited answers and exceptions\<close>

text \<open>
  \<open>ApiError s m\<close> is \<open>new ApiError(s, m)\<close>; \<open>Thrown m\<close> is any other thrown value,
  by its message.
\<close>

datatype exn = ApiError nat string | Thrown string

text \<open>What awaiting a promise gives: its value, or the exception of a rejection.\<close>

datatype 'a awaited = Resolved 'a | Rejected exn

text \<open>
  The trace. \<open>Db t op cols\<close> is a query \<open>supabase.from(t).op(...)\<close> with the text columns
  of its payload that the model follows; \<open>Rpc f args\<close> is \<open>supabase.rpc(f, args)\<close>;
  \<open>Emit room ev key\<close> is \<open>io.emit(ev, ...)\<close> (room \<open>None\<close>) or
  \<open>io.to(room).emit(ev, ...)\<close>, with the id its payload carries; \<open>Call f\<close> is the
  call of a service function; \<open>ChainSend h\<close> is the transaction
  \<open>contract.storeHash(h)\<close> sent to the chain and \<open>ChainWait\<close> the wait for its
  receipt; \<open>Log level text\<close> is a line of the logger.
\<close>

datatype effect =
    Db string string "(string \<times> string option) list"
  | Rpc string "(string \<times> number) list"
  | Emit "string option" string string
  | Call string
  | ChainSend string
  | ChainWait
  | Log string string

text \<open>
  A computation: the trace it leaves and either the exception it throws (\<open>Inl\<close>) or
  its value (\<open>Inr\<close>).
\<close>

type_synonym 'a io = "effect list \<times> (exn + 'a)"

definition ret :: "'a \<Rightarrow> 'a io" where
  "ret x = ([], Inr x)"

definition throw :: "exn \<Rightarrow> 'a io" where
  "throw e = ([], Inl e)"

definition bind :: "'a io \<Rightarrow> ('a \<Rightarrow> 'b io) \<Rightarrow> 'b io" where
  "bind m f =
     (case m of
        (t, Inl e) \<Rightarrow> (t, Inl e)
      | (t, Inr x) \<Rightarrow> (case f x of (t', r) \<Rightarrow> (t @ t', r)))"

text \<open>\<open>try { m } catch (e) { h e }\<close>.\<close>

definition try_catch :: "'a io \<Rightarrow> (exn \<Rightarrow> 'a io) \<Rightarrow> 'a io" where
  "try_catch m h =
     (case m of
        (t, Inl e) \<Rightarrow> (case h e of (t', r) \<Rightarrow> (t @ t', r))
      | (t, Inr x) \<Rightarrow> (t, Inr x))"

definition effect :: "effect \<Rightarrow> unit io" where
  "effect ev = ([ev], Inr ())"

text \<open>\<open>await\<close> of an outside call: the call is traced, a rejection is thrown.\<close>

definition await :: "effect \<Rightarrow> 'a awaited \<Rightarrow> 'a io" where
  "await ev answer = ([ev], case answer of Resolved x \<Rightarrow> Inr x | Rejected e \<Rightarrow> Inl e)"

definition trace :: "'a io \<Rightarrow> effect list" where
  "trace m = fst m"

definition outcome :: "'a io \<Rightarrow> exn + 'a" where
  "outcome m = snd m"

section \<open>The geofence service\<close>

text \<open>A row of \<open>check_point_in_geofences\<close> and the \<open>GeofenceViolation\<close> made of it.\<close>

record geofence_hit =
  hit_geofence_id :: string
  hit_name :: string
  hit_type :: string
  hit_description :: "string option"

record GeofenceViolation =
  gv_id :: string
  gv_name :: string
  gv_type :: string
  gv_description :: "string option"

record geofence_row =
  gf_id :: string
  gf_name :: string
  gf_type :: string
  gf_description :: "string option"
  gf_geometry :: string
  gf_created_at :: string

record geofence_view =
  view_id :: string
  view_name :: string
  view_type :: string
  view_description :: "string option"
  view_coordinates :: "(number option \<times> number option) list"
  view_createdAt :: string

text \<open>
  The answers of the database to the geofence service. A query resolves to
  \<open>{ data, error }\<close>: \<open>Inl\<close> the error object, \<open>Inr\<close> the data (which may be
  \<open>null\<close> where the code allows for it); or the awaited call rejects.
  \<open>check_point_in_geofences\<close> is the database function of that name, a function of the
  point it is called with.
\<close>

record geofence_db =
  check_point_in_geofences :: "number \<Rightarrow> number \<Rightarrow> (string + geofence_hit list option) awaited"
  geofences_insert :: "(string + string) awaited"
  geofences_select :: "(string + geofence_row list option) awaited"

text \<open>
  \<^verbatim>\<open>export async function checkGeofences(latitude, longitude) {
    try {
      const { data: violations, error } = await supabase
        .rpc('check_point_in_geofences', { point_lat: latitude, point_lng: longitude });
      if (error) { logger.error('Geofence check failed:', error); return []; }
      return violations?.map((violation: any) => ({
        id: violation.geofence_id, name: violation.name,
        type: violation.type, description: violation.description })) || [];
    } catch (error) { logger.error('Geofence service error:', error); return []; }
  }\<close>
\<close>

definition violation_of_hit :: "geofence_hit \<Rightarrow> GeofenceViolation" where
  "violation_of_hit violation =
     \<lparr>gv_id = hit_geofence_id violation, gv_name = hit_name violation,
      gv_type = hit_type violation, gv_description = hit_description violation\<rparr>"

definition checkGeofences :: "geofence_db \<Rightarrow> number \<Rightarrow> number \<Rightarrow> GeofenceViolation list io" where
  "checkGeofences db latitude longitude =
     try_catch
       (bind (await (Rpc ''check_point_in_geofences''
                       [(''point_lat'', latitude), (''point_lng'', longitude)])
                    (check_point_in_geofences db latitude longitude))
          (\<lambda>answer. case answer of
             Inl error \<Rightarrow> bind (effect (Log ''error'' ''Geofence check failed:'')) (\<lambda>_. ret [])
           | Inr violations \<Rightarrow>
               ret (case violations of
                      None \<Rightarrow> []
                    | Some rows \<Rightarrow> map violation_of_hit rows)))
       (\<lambda>error. bind (effect (Log ''error'' ''Geofence service error:'')) (\<lambda>_. ret []))"

text \<open>
  The polygon text of \<open>createGeofence\<close>, from \<open>[lat, lng]\<close> pairs; \<open>toString\<close> is the
  conversion of a number to text that a template performs. \<open>coordinates[0][1]\<close> throws a
  TypeError on an empty list.
  \<^verbatim>\<open>const polygonCoords = coordinates.map(([lat, lng]) => `${lng} ${lat}`).join(', ');
  const polygonWKT =
    `POLYGON((${polygonCoords}, ${coordinates[0][1]} ${coordinates[0][0]}))`;\<close>
\<close>

fun coord_text :: "(number \<Rightarrow> string) \<Rightarrow> number \<times> number \<Rightarrow> string" where
  "coord_text toString (lat, lng) = toString lng @ '' '' @ toString lat"

definition polygonCoords :: "(number \<Rightarrow> string) \<Rightarrow> (number \<times> number) list \<Rightarrow> string" where
  "polygonCoords toString coordinates = join_js '', '' (map (coord_text toString) coordinates)"

definition polygonWKT :: "(number \<Rightarrow> string) \<Rightarrow> (number \<times> number) list \<Rightarrow> string io" where
  "polygonWKT toString coordinates =
     (case coordinates of
        [] \<Rightarrow> throw (Thrown ''TypeError: Cannot read properties of undefined'')
      | (lat0, lng0) # _ \<Rightarrow>
          ret (''POLYGON(('' @ polygonCoords toString coordinates @ '', ''
               @ toString lng0 @ '' '' @ toString lat0 @ ''))''))"

text \<open>
  \<open>createGeofence\<close>: the polygon text is inserted as the \<open>geometry\<close> column (the
  time stamp of the row is left out); the result is the new id, or \<open>null\<close> after any
  failure.
\<close>

definition createGeofence ::
  "geofence_db \<Rightarrow> (number \<Rightarrow> string) \<Rightarrow> string \<Rightarrow> string \<Rightarrow> (number \<times> number) list
     \<Rightarrow> string option \<Rightarrow> string option \<Rightarrow> string option io" where
  "createGeofence db toString name gtype coordinates description createdBy =
     try_catch
       (bind (polygonWKT toString coordinates) (\<lambda>wkt.
        bind (await (Db ''geofences'' ''insert''
                       [(''name'', Some name), (''type'', Some gtype),
                        (''description'', description), (''geometry'', Some wkt),
                        (''is_active'', Some ''true''), (''created_by'', createdBy)])
                    (geofences_insert db)) (\<lambda>answer.
        case answer of
          Inl error \<Rightarrow> bind (effect (Log ''error'' ''Failed to create geofence:'')) (\<lambda>_. ret None)
        | Inr gid \<Rightarrow> bind (effect (Log ''info'' ''Geofence created'')) (\<lambda>_. ret (Some gid)))))
       (\<lambda>error. bind (effect (Log ''error'' ''Geofence creation error:'')) (\<lambda>_. ret None))"

text \<open>
  \<open>parsePolygonCoordinates\<close>; \<open>Number\<close> is the conversion of text to a number. The
  destructuring \<open>[lng, lat]\<close> leaves \<open>undefined\<close> what the split does not supply. On a
  string argument no step of the body throws.
  \<^verbatim>\<open>const coords = geometry.replace('POLYGON((', '').replace('))', '').split(', ')
    .map(coord => {
      const [lng, lat] = coord.trim().split(' ').map(Number);
      return [lat, lng] as [number, number];
    });
  return coords.slice(0, -1);\<close>
\<close>

definition parse_coord :: "(string \<Rightarrow> number) \<Rightarrow> string \<Rightarrow> number option \<times> number option" where
  "parse_coord Number coord =
     (case map Number (split_js '' '' (trim_js coord)) of
        [] \<Rightarrow> (None, None)
      | [lng] \<Rightarrow> (None, Some lng)
      | lng # lat # _ \<Rightarrow> (Some lat, Some lng))"

definition parsePolygonCoordinates ::
  "(string \<Rightarrow> number) \<Rightarrow> string \<Rightarrow> (number option \<times> number option) list" where
  "parsePolygonCoordinates Number geometry =
     butlast (map (parse_coord Number)
                  (split_js '', '' (replace_js ''))'' [] (replace_js ''POLYGON(('' [] geometry))))"

text \<open>
  \<open>getActiveGeofences\<close>: a plain \<open>select\<close> on the table; the coordinates of each row
  are computed from its \<open>geometry\<close> text by \<open>parsePolygonCoordinates\<close>.
\<close>

definition view_of_row :: "(string \<Rightarrow> number) \<Rightarrow> geofence_row \<Rightarrow> geofence_view" where
  "view_of_row Number geofence =
     \<lparr>view_id = gf_id geofence, view_name = gf_name geofence, view_type = gf_type geofence,
      view_description = gf_description geofence,
      view_coordinates = parsePolygonCoordinates Number (gf_geometry geofence),
      view_createdAt = gf_created_at geofence\<rparr>"

definition getActiveGeofences :: "geofence_db \<Rightarrow> (string \<Rightarrow> number) \<Rightarrow> geofence_view list io" where
  "getActiveGeofences db Number =
     try_catch
       (bind (await (Db ''geofences'' ''select'' [(''is_active'', Some ''true'')])
                    (geofences_select db))
          (\<lambda>answer. case answer of
             Inl error \<Rightarrow> bind (effect (Log ''error'' ''Failed to fetch geofences:'')) (\<lambda>_. ret [])
           | Inr geofences \<Rightarrow>
               ret (case geofences of
                      None \<Rightarrow> []
                    | Some rows \<Rightarrow> map (view_of_row Number) rows)))
       (\<lambda>error. bind (effect (Log ''error'' ''Get geofences error:'')) (\<lambda>_. ret []))"

text \<open>The geometry texts that the \<open>select\<close> of \<open>getActiveGeofences\<close> is answered with.\<close>

definition geofences_select_rows :: "geofence_db \<Rightarrow> exn + geofence_row list" where
  "geofences_select_rows db =
     (case geofences_select db of
        Resolved (Inr (Some rows)) \<Rightarrow> Inr rows
      | Resolved (Inr None) \<Rightarrow> Inr []
      | Resolved (Inl error) \<Rightarrow> Inl (Thrown error)
      | Rejected e \<Rightarrow> Inl e)"

text \<open>
  Conversions between whole numbers and their decimal text, for concrete evaluations:
  \<open>whole_toString\<close> prints the integer part of a non-negative number, \<open>whole_Number\<close>
  reads a string of digits.
\<close>

definition whole_toString :: "number \<Rightarrow> string" where
  "whole_toString x = show_nat (nat \<lfloor>x\<rfloor>)"

definition digit_value :: "char \<Rightarrow> nat" where
  "digit_value c = of_char c - 48"

definition whole_Number :: "string \<Rightarrow> number" where
  "whole_Number s = real (foldl (\<lambda>n c. 10 * n + digit_value c) 0 s)"

section \<open>The blockchain anchoring service\<close>

record anchor_data =
  ad_alert_id :: "string option"
  ad_user_id :: "string option"
  ad_type :: string
  ad_severity :: "string option"
  ad_timestamp :: string
  ad_location_hash :: "string option"

record BlockchainAnchor =
  ba_hash :: string
  ba_network :: string
  ba_transactionHash :: "string option"
  ba_blockNumber :: "nat option"

text \<open>
  What the anchoring service reads from outside: the process environment, the library
  functions \<open>crypto.createHash('sha256').update(s).digest('hex')\<close> and
  \<open>JSON.stringify\<close> (of an object, given as its keys in order with their values),
  \<open>crypto.randomBytes(20).toString('hex')\<close>, the readings of \<open>Date.now()\<close> at the
  three places that use it, the answers of the database to the two inserts into
  \<open>blockchain_anchors\<close> (their results are not read, only a rejection matters), and the
  answers of the chain library: the construction of the wallet (which throws on a
  missing or malformed key), the sent transaction (its hash) and its receipt (hash and
  block number).
\<close>

record chain_world =
  MOCK_BLOCKCHAIN :: "string option"
  POLYGON_RPC_URL :: "string option"
  CONTRACT_ADDRESS :: "string option"
  ENCRYPTION_KEY :: "string option"
  sha256_hex :: "string \<Rightarrow> string"
  JSON_stringify :: "(string \<times> string option) list \<Rightarrow> string"
  randomBytes_hex :: string
  now_mock_row :: nat
  now_mock_result :: nat
  now_fallback :: nat
  anchors_insert :: "unit awaited"
  fallback_insert :: "unit awaited"
  Wallet_new :: "unit awaited"
  storeHash :: "string awaited"
  tx_wait :: "(string \<times> nat) awaited"

text \<open>A value is truthy when it is neither \<open>undefined\<close> nor the empty string.\<close>

definition truthy :: "string option \<Rightarrow> bool" where
  "truthy v = (case v of None \<Rightarrow> False | Some s \<Rightarrow> s \<noteq> [])"

text \<open>\<open>a || b\<close> on strings that may be undefined.\<close>

definition or_js :: "string option \<Rightarrow> string option \<Rightarrow> string option" where
  "or_js a b = (if truthy a then a else b)"

text \<open>A string that may be undefined, as string concatenation writes it.\<close>

definition concat_text :: "string option \<Rightarrow> string" where
  "concat_text v = (case v of None \<Rightarrow> ''undefined'' | Some s \<Rightarrow> s)"

text \<open>
  \<^verbatim>\<open>function hashPII(data: string): string {
    return crypto.createHash('sha256').update(data + process.env.ENCRYPTION_KEY).digest('hex');
  }\<close>
\<close>

definition hashPII :: "chain_world \<Rightarrow> string \<Rightarrow> string" where
  "hashPII w d = sha256_hex w (d @ concat_text (ENCRYPTION_KEY w))"

text \<open>\<open>x ? hashPII(x) : undefined\<close>.\<close>

definition hashed_if_present :: "chain_world \<Rightarrow> string option \<Rightarrow> string option" where
  "hashed_if_present w v = (if truthy v then map_option (hashPII w) v else None)"

definition dataString :: "chain_world \<Rightarrow> anchor_data \<Rightarrow> string" where
  "dataString w d =
     JSON_stringify w
       [(''alert_id'', ad_alert_id d),
        (''user_id'', hashed_if_present w (ad_user_id d)),
        (''type'', Some (ad_type d)),
        (''severity'', ad_severity d),
        (''timestamp'', Some (ad_timestamp d)),
        (''location_hash'', hashed_if_present w (ad_location_hash d))]"

definition bytes32Hash :: "chain_world \<Rightarrow> anchor_data \<Rightarrow> string" where
  "bytes32Hash w d = ''0x'' @ sha256_hex w (dataString w d)"

text \<open>\<open>JSON.stringify(data)\<close> of the argument itself, in the fallback.\<close>

definition fallbackHash :: "chain_world \<Rightarrow> anchor_data \<Rightarrow> string" where
  "fallbackHash w d =
     sha256_hex w (JSON_stringify w
       [(''alert_id'', ad_alert_id d), (''user_id'', ad_user_id d), (''type'', Some (ad_type d)),
        (''severity'', ad_severity d), (''timestamp'', Some (ad_timestamp d)),
        (''location_hash'', ad_location_hash d)])"

text \<open>The columns of a row of \<open>blockchain_anchors\<close>.\<close>

definition anchor_row :: "anchor_data \<Rightarrow> string \<Rightarrow> string \<Rightarrow> string \<Rightarrow> (string \<times> string option) list" where
  "anchor_row d h tx network =
     [(''reference_type'', Some (if truthy (ad_alert_id d) then ''alert'' else ''user'')),
      (''reference_id'', or_js (ad_alert_id d) (ad_user_id d)),
      (''hash'', Some h),
      (''transaction_hash'', Some tx),
      (''network'', Some network)]"

text \<open>
  \<open>deployContract\<close>: the contract source is a string that is never compiled; the
  function returns \<open>'0x'\<close> followed by twenty random bytes in hexadecimal.
\<close>

definition deployContract :: "chain_world \<Rightarrow> string io" where
  "deployContract w =
     bind (effect (Log ''info'' ''Mock contract deployed at:'')) (\<lambda>_.
     ret (''0x'' @ randomBytes_hex w))"

definition mock_mode :: "chain_world \<Rightarrow> bool" where
  "mock_mode w = (MOCK_BLOCKCHAIN w = Some ''true'' \<or> \<not> truthy (POLYGON_RPC_URL w))"

text \<open>
  \<open>anchorToBlockchain\<close>, in three parts: the branch taken in mock mode, where the hash is
  stored in the database only; the branch taken otherwise, where the hash is sent to the
  contract, the receipt is awaited and the anchor is stored with the network
  \<open>polygon-mumbai\<close>; and the \<open>catch\<close> around both, which logs the exception, stores
  a fallback row and throws the exception again.
\<close>

definition anchor_mock :: "chain_world \<Rightarrow> anchor_data \<Rightarrow> BlockchainAnchor io" where
  "anchor_mock w d =
     bind (effect (Log ''info'' ''Mock blockchain anchor created:'')) (\<lambda>_.
     bind (await (Db ''blockchain_anchors'' ''insert''
                    (anchor_row d (bytes32Hash w d)
                       (''mock_tx_'' @ show_nat (now_mock_row w)) ''mock''))
                 (anchors_insert w)) (\<lambda>_.
     ret \<lparr>ba_hash = bytes32Hash w d, ba_network = ''mock'',
          ba_transactionHash = Some (''mock_tx_'' @ show_nat (now_mock_result w)),
          ba_blockNumber = None\<rparr>))"

definition anchor_live :: "chain_world \<Rightarrow> anchor_data \<Rightarrow> BlockchainAnchor io" where
  "anchor_live w d =
     bind (await (Call ''ethers.Wallet'') (Wallet_new w)) (\<lambda>_.
     bind (case CONTRACT_ADDRESS w of
             None \<Rightarrow> deployContract w
           | Some a \<Rightarrow> if a = [] then deployContract w else ret a) (\<lambda>contractAddress.
     bind (await (ChainSend (bytes32Hash w d)) (storeHash w)) (\<lambda>tx.
     bind (effect (Log ''info'' ''Blockchain transaction sent:'')) (\<lambda>_.
     bind (await ChainWait (tx_wait w)) (\<lambda>receipt.
     bind (effect (Log ''info'' ''Hash anchored to blockchain'')) (\<lambda>_.
     bind (await (Db ''blockchain_anchors'' ''insert''
                    (anchor_row d (bytes32Hash w d) (fst receipt) ''polygon-mumbai''))
                 (anchors_insert w)) (\<lambda>_.
     ret \<lparr>ba_hash = bytes32Hash w d, ba_network = ''polygon-mumbai'',
          ba_transactionHash = Some (fst receipt),
          ba_blockNumber = Some (snd receipt)\<rparr>)))))))"

definition anchor_fallback :: "chain_world \<Rightarrow> anchor_data \<Rightarrow> exn \<Rightarrow> BlockchainAnchor io" where
  "anchor_fallback w d error =
     bind (effect (Log ''error'' ''Blockchain anchoring failed:'')) (\<lambda>_.
     bind (await (Db ''blockchain_anchors'' ''insert''
                    (anchor_row d (''0x'' @ fallbackHash w d)
                       (''fallback_'' @ show_nat (now_fallback w)) ''fallback''))
                 (fallback_insert w)) (\<lambda>_.
     throw error))"

definition anchorToBlockchain :: "chain_world \<Rightarrow> anchor_data \<Rightarrow> BlockchainAnchor io" where
  "anchorToBlockchain w d =
     try_catch (if mock_mode w then anchor_mock w d else anchor_live w d) (anchor_fallback w d)"

section \<open>The request handlers\<close>

record tourist =
  t_name :: string
  t_phone_number :: string
  t_emergency_contact :: "string option"

record alert_row =
  alert_id :: string
  alert_type :: string
  alert_severity :: string
  alert_status :: string
  alert_latitude :: number
  alert_longitude :: number
  alert_message :: "string option"
  alert_created_at :: string

record location_row =
  location_id :: string
  location_latitude :: number
  location_longitude :: number
  location_accuracy :: number
  location_created_at :: string

record anomaly =
  anomaly_type :: string
  anomaly_confidence :: number

text \<open>
  What the outside answers during one request: the geofence database, the anchoring
  service's world, the rows the queries of the handler resolve to (\<open>.single()\<close> gives
  either an error or a row; where the handler reads \<open>data\<close> only, an error leaves it
  \<open>null\<close>), the two services whose code is outside the repository,
  \<open>sendPushNotification\<close> and \<open>detectAnomalies\<close>, and the text a template writes
  for a number.
\<close>

record request_world =
  db_geo :: geofence_db
  chain :: chain_world
  tourists_single :: "(string + tourist) awaited"
  alerts_insert :: "(string + alert_row) awaited"
  locations_insert :: "(string + location_row) awaited"
  alerts_update :: "unit awaited"
  sendPushNotification :: "unit awaited"
  detectAnomalies :: "anomaly option awaited"
  number_toString :: "number \<Rightarrow> string"

text \<open>
  How a handler ends: \<open>res.status(s).json(body)\<close>, or \<open>next(error)\<close> from the
  \<open>catch\<close> that wraps its whole body.
\<close>

datatype 'b reply = Responded nat 'b | Next exn

definition handler :: "(nat \<times> 'b) io \<Rightarrow> effect list \<times> 'b reply" where
  "handler m =
     (case m of
        (t, Inr (status, body)) \<Rightarrow> (t, Responded status body)
      | (t, Inl error) \<Rightarrow> (t, Next error))"

subsection \<open>POST /api/alerts/panic\<close>

text \<open>The validated body of the request and the id of the authenticated user.\<close>

record panic_request =
  pq_latitude :: number
  pq_longitude :: number
  pq_message :: "string option"
  pq_severity :: string
  pq_type :: string
  pq_userId :: string

record alert_view =
  av_id :: string
  av_type :: string
  av_severity :: string
  av_status :: string
  av_latitude :: number
  av_longitude :: number
  av_message :: "string option"
  av_createdAt :: string
  av_estimatedResponseTime :: string

record panic_body =
  pb_success :: bool
  pb_alert :: alert_view
  pb_geofenceViolations :: "GeofenceViolation list"
  pb_message :: string

text \<open>
  \<^verbatim>\<open>function getEstimatedResponseTime(severity: string, inRestrictedArea: boolean): string {
    let minutes = 15;
    switch (severity) {
      case 'critical': minutes = 5; break;
      case 'high': minutes = 10; break;
      case 'medium': minutes = 20; break;
      case 'low': minutes = 30; break;
    }
    if (inRestrictedArea) { minutes += 10; }
    return `${minutes} minutes`;
  }\<close>
\<close>

definition getEstimatedResponseTime :: "string \<Rightarrow> bool \<Rightarrow> string" where
  "getEstimatedResponseTime severity inRestrictedArea =
     (let minutes = (if severity = ''critical'' then 5
                     else if severity = ''high'' then 10
                     else if severity = ''medium'' then 20
                     else if severity = ''low'' then 30
                     else 15 :: nat);
          minutes = (if inRestrictedArea then minutes + 10 else minutes)
      in show_nat minutes @ '' minutes'')"

text \<open>The push notification of a high or critical alert, in its own \<open>try\<close>.\<close>

definition notify_authorities :: "request_world \<Rightarrow> panic_request \<Rightarrow> unit io" where
  "notify_authorities w req =
     (if pq_severity req = ''critical'' \<or> pq_severity req = ''high'' then
        try_catch
          (await (Call ''sendPushNotification'') (sendPushNotification w))
          (\<lambda>notificationError. effect (Log ''error'' ''Failed to send push notification:''))
      else ret ())"

text \<open>The object passed to \<open>anchorToBlockchain\<close> for a critical alert.\<close>

definition panic_anchor_data :: "request_world \<Rightarrow> panic_request \<Rightarrow> alert_row \<Rightarrow> anchor_data" where
  "panic_anchor_data w req alert =
     \<lparr>ad_alert_id = Some (alert_id alert), ad_user_id = Some (pq_userId req),
      ad_type = pq_type req, ad_severity = Some (pq_severity req),
      ad_timestamp = alert_created_at alert,
      ad_location_hash =
        Some (number_toString w (pq_latitude req) @ '','' @ number_toString w (pq_longitude req))\<rparr>"

text \<open>The anchoring of a critical alert, in its own \<open>try\<close>.\<close>

definition anchor_alert :: "request_world \<Rightarrow> panic_request \<Rightarrow> alert_row \<Rightarrow> unit io" where
  "anchor_alert w req alert =
     (if pq_severity req = ''critical'' then
        try_catch
          (bind (effect (Call ''anchorToBlockchain'')) (\<lambda>_.
           bind (anchorToBlockchain (chain w) (panic_anchor_data w req alert)) (\<lambda>blockchainTx.
           bind (await (Db ''alerts'' ''update''
                          [(''id'', Some (alert_id alert)),
                           (''blockchain_tx'', Some (ba_hash blockchainTx)),
                           (''blockchain_network'', Some (ba_network blockchainTx))])
                       (alerts_update w)) (\<lambda>_.
           effect (Log ''info'' ''Critical alert anchored to blockchain'')))))
          (\<lambda>blockchainError. effect (Log ''error'' ''Failed to anchor alert to blockchain:''))
      else ret ())"

definition panic_reply :: "panic_request \<Rightarrow> alert_row \<Rightarrow> GeofenceViolation list \<Rightarrow> panic_body" where
  "panic_reply req alert geofenceViolations =
     \<lparr>pb_success = True,
      pb_alert = \<lparr>av_id = alert_id alert, av_type = alert_type alert,
                  av_severity = alert_severity alert, av_status = alert_status alert,
                  av_latitude = alert_latitude alert, av_longitude = alert_longitude alert,
                  av_message = alert_message alert, av_createdAt = alert_created_at alert,
                  av_estimatedResponseTime =
                    getEstimatedResponseTime (pq_severity req) (length geofenceViolations > 0)\<rparr>,
      pb_geofenceViolations = geofenceViolations,
      pb_message = ''Alert created successfully. Help is on the way.''\<rparr>"

text \<open>
  The handler, statement by statement: the user's details, the geofence check, the
  insert of the alert (an error ends the request with \<open>ApiError(500)\<close>), the insert of
  the location, the \<open>new_alert\<close> socket event, the push notification, the anchoring,
  the response with status 201.
\<close>

definition panic_steps :: "request_world \<Rightarrow> panic_request \<Rightarrow> (nat \<times> panic_body) io" where
  "panic_steps w req =
     bind (await (Db ''tourists'' ''select'' [(''id'', Some (pq_userId req))])
                 (tourists_single w)) (\<lambda>user.
     bind (checkGeofences (db_geo w) (pq_latitude req) (pq_longitude req)) (\<lambda>geofenceViolations.
     bind (await (Db ''alerts'' ''insert''
                    [(''user_id'', Some (pq_userId req)), (''type'', Some (pq_type req)),
                     (''severity'', Some (pq_severity req)), (''status'', Some ''active''),
                     (''message'', pq_message req)])
                 (alerts_insert w)) (\<lambda>answer.
     case answer of
       Inl error \<Rightarrow>
         bind (effect (Log ''error'' ''Failed to create panic alert:'')) (\<lambda>_.
         throw (ApiError 500 ''Failed to create alert''))
     | Inr alert \<Rightarrow>
         bind (await (Db ''locations'' ''insert''
                        [(''user_id'', Some (pq_userId req)), (''alert_id'', Some (alert_id alert))])
                     (locations_insert w)) (\<lambda>_.
         bind (effect (Emit None ''new_alert'' (alert_id alert))) (\<lambda>_.
         bind (notify_authorities w req) (\<lambda>_.
         bind (anchor_alert w req alert) (\<lambda>_.
         bind (effect (Log ''info'' ''Panic alert created'')) (\<lambda>_.
         ret (201, panic_reply req alert geofenceViolations)))))))))"

definition panic_handler :: "request_world \<Rightarrow> panic_request \<Rightarrow> effect list \<times> panic_body reply" where
  "panic_handler w req = handler (panic_steps w req)"

subsection \<open>POST /api/locations/update\<close>

record update_request =
  uq_latitude :: number
  uq_longitude :: number
  uq_userId :: string

record update_body =
  ub_location :: location_row
  ub_violations :: "GeofenceViolation list"
  ub_inRestrictedArea :: bool
  ub_inSafeZone :: bool
  ub_anomaly :: "anomaly option"
  ub_message :: string

text \<open>Anomaly detection, in its own \<open>try\<close>: a failure leaves \<open>anomalyAlert\<close> null.\<close>

definition detect_anomaly :: "request_world \<Rightarrow> anomaly option io" where
  "detect_anomaly w =
     try_catch
       (await (Call ''detectAnomalies'') (detectAnomalies w))
       (\<lambda>anomalyError. bind (effect (Log ''warn'' ''Anomaly detection failed:'')) (\<lambda>_. ret None))"

text \<open>
  The automatic alert for the entry into a restricted area; the socket event is sent
  only when the insert gave a row.
\<close>

definition handle_violations :: "request_world \<Rightarrow> update_request \<Rightarrow> GeofenceViolation list \<Rightarrow> unit io" where
  "handle_violations w req geofenceViolations =
     (if length geofenceViolations > 0 then
        (let restrictedViolations = filter (\<lambda>v. gv_type v = ''restricted'') geofenceViolations
         in if length restrictedViolations > 0 then
              bind (await (Db ''alerts'' ''insert''
                             [(''user_id'', Some (uq_userId req)), (''type'', Some ''geofence_violation''),
                              (''severity'', Some ''medium''), (''status'', Some ''active'')])
                          (alerts_insert w)) (\<lambda>answer.
              case answer of
                Inl error \<Rightarrow> ret ()
              | Inr alert \<Rightarrow> effect (Emit None ''geofence_violation'' (alert_id alert)))
            else ret ())
      else ret ())"

definition update_reply ::
  "location_row \<Rightarrow> GeofenceViolation list \<Rightarrow> anomaly option \<Rightarrow> update_body" where
  "update_reply location geofenceViolations anomalyAlert =
     \<lparr>ub_location = location,
      ub_violations = geofenceViolations,
      ub_inRestrictedArea = list_ex (\<lambda>v. gv_type v = ''restricted'') geofenceViolations,
      ub_inSafeZone = list_ex (\<lambda>v. gv_type v = ''safe'') geofenceViolations,
      ub_anomaly = anomalyAlert,
      ub_message = ''Location updated successfully''\<rparr>"

definition update_steps :: "request_world \<Rightarrow> update_request \<Rightarrow> (nat \<times> update_body) io" where
  "update_steps w req =
     bind (await (Db ''locations'' ''insert'' [(''user_id'', Some (uq_userId req))])
                 (locations_insert w)) (\<lambda>answer.
     case answer of
       Inl error \<Rightarrow>
         bind (effect (Log ''error'' ''Failed to save location:'')) (\<lambda>_.
         throw (ApiError 500 ''Failed to save location''))
     | Inr location \<Rightarrow>
         bind (checkGeofences (db_geo w) (uq_latitude req) (uq_longitude req)) (\<lambda>geofenceViolations.
         bind (detect_anomaly w) (\<lambda>anomalyAlert.
         bind (handle_violations w req geofenceViolations) (\<lambda>_.
         bind (case anomalyAlert of
                 None \<Rightarrow> ret ()
               | Some a \<Rightarrow> effect (Emit None ''anomaly_detected'' (uq_userId req))) (\<lambda>_.
         bind (effect (Emit (Some ''dashboard'') ''location_update'' (uq_userId req))) (\<lambda>_.
         ret (200, update_reply location geofenceViolations anomalyAlert)))))))"

definition update_handler :: "request_world \<Rightarrow> update_request \<Rightarrow> effect list \<times> update_body reply" where
  "update_handler w req = handler (update_steps w req)"

subsection \<open>GET /api/locations/nearby\<close>

text \<open>
  The radius search. The query parameters are strings that may be missing; the role is
  that of the authenticated user. \<open>get_nearby_tourists\<close> is the database function of
  that name, a function of the centre and the radius it is called with; its rows carry
  the distance it computed.
\<close>

record nearby_request =
  nq_latitude :: "string option"
  nq_longitude :: "string option"
  nq_radius :: "string option"
  nq_role :: string

record nearby_row =
  nr_user_id :: string
  nr_name :: string
  nr_latitude :: number
  nr_longitude :: number
  nr_distance :: number
  nr_last_location_time :: string
  nr_status :: string

record nearby_tourist =
  nt_id :: string
  nt_name :: string
  nt_latitude :: number
  nt_longitude :: number
  nt_distance :: number
  nt_lastSeen :: string
  nt_status :: string

record nearby_body =
  nb_tourists :: "nearby_tourist list"
  nb_center_latitude :: number
  nb_center_longitude :: number
  nb_searchRadius :: number

record nearby_db =
  get_nearby_tourists :: "number \<Rightarrow> number \<Rightarrow> number \<Rightarrow> (string + nearby_row list option) awaited"

definition tourist_of_row :: "nearby_row \<Rightarrow> nearby_tourist" where
  "tourist_of_row tourist =
     \<lparr>nt_id = nr_user_id tourist, nt_name = nr_name tourist,
      nt_latitude = nr_latitude tourist, nt_longitude = nr_longitude tourist,
      nt_distance = nr_distance tourist, nt_lastSeen = nr_last_location_time tourist,
      nt_status = nr_status tourist\<rparr>"

text \<open>
  \<open>const { latitude, longitude, radius = 1000 } = req.query\<close>: the default stands in
  for a missing radius only; \<open>Number\<close> is the conversion of text to a number.
\<close>

definition search_radius :: "(string \<Rightarrow> number) \<Rightarrow> nearby_request \<Rightarrow> number" where
  "search_radius Number req = (case nq_radius req of None \<Rightarrow> 1000 | Some r \<Rightarrow> Number r)"

definition nearby_steps ::
  "nearby_db \<Rightarrow> (string \<Rightarrow> number) \<Rightarrow> nearby_request \<Rightarrow> (nat \<times> nearby_body) io" where
  "nearby_steps db Number req =
     (if nq_role req \<noteq> ''police'' \<and> nq_role req \<noteq> ''admin'' then
        throw (ApiError 403 ''Insufficient permissions'')
      else if \<not> truthy (nq_latitude req) \<or> \<not> truthy (nq_longitude req) then
        throw (ApiError 400 ''Latitude and longitude are required'')
      else
        bind (await (Rpc ''get_nearby_tourists''
                       [(''center_lat'', Number (concat_text (nq_latitude req))),
                        (''center_lng'', Number (concat_text (nq_longitude req))),
                        (''radius_meters'', search_radius Number req)])
                    (get_nearby_tourists db (Number (concat_text (nq_latitude req)))
                                            (Number (concat_text (nq_longitude req)))
                                            (search_radius Number req))) (\<lambda>answer.
        case answer of
          Inl error \<Rightarrow>
            bind (effect (Log ''error'' ''Failed to get nearby tourists:'')) (\<lambda>_.
            throw (ApiError 500 ''Failed to get nearby tourists''))
        | Inr nearbyTourists \<Rightarrow>
            ret (200, \<lparr>nb_tourists = (case nearbyTourists of
                                         None \<Rightarrow> []
                                       | Some rows \<Rightarrow> map tourist_of_row rows),
                        nb_center_latitude = Number (concat_text (nq_latitude req)),
                        nb_center_longitude = Number (concat_text (nq_longitude req)),
                        nb_searchRadius = search_radius Number req\<rparr>)))"

definition nearby_handler ::
  "nearby_db \<Rightarrow> (string \<Rightarrow> number) \<Rightarrow> nearby_request \<Rightarrow> effect list \<times> nearby_body reply" where
  "nearby_handler db Number req = handler (nearby_steps db Number req)"

section \<open>The chat service\<close>

record chat_context =
  ctx_location :: "geo_location option"
  ctx_incident_id :: "string option"

record ChatRequest =
  rq_message :: string
  rq_context :: "chat_context option"
  rq_conversationId :: "string option"
  rq_language :: "string option"

record place =
  place_name :: string
  place_category :: "string option"
  place_rating :: "number option"
  place_distance :: "number option"

text \<open>
  The \<open>context\<close> of a response: the empty object of the fallback, or the location, the
  safety score and the nearby places.
\<close>

datatype response_context = EmptyContext | RagContext "geo_location option" number "place list"

record source_ref =
  src_id :: string
  src_content :: string
  src_similarity :: number
  src_type :: string

record ChatResponse =
  rs_message :: string
  rs_conversationId :: string
  rs_context :: response_context
  rs_sources :: "source_ref list"
  rs_confidence :: number
  rs_language :: string
  rs_processingTime :: int

text \<open>
  What the chat service reads from outside: the completion client (\<open>None\<close> when no API
  key is configured and the client is \<open>null\<close>; otherwise the awaited answer, as the
  contents of the messages of its choices), the answer of the database to the insert of
  the conversation, the readings of \<open>Date.now()\<close> at entry, in
  \<open>generateConversationId\<close> and at exit, and the base-36 text of a number.
\<close>

record chat_world =
  openai :: "string option list awaited option"
  conversations_insert :: "unit awaited"
  now_start :: nat
  now_id :: nat
  now_end :: nat
  toString36 :: "number \<Rightarrow> string"

text \<open>
  \<^verbatim>\<open>function generateConversationId(): string {
    return `conv_${Date.now()}_${Math.random().toString(36).substring(2, 15)}`;
  }\<close>
\<close>

definition generateConversationId :: "chat_world \<Rightarrow> random_source \<Rightarrow> string \<times> random_source" where
  "generateConversationId w g =
     (case Math_random g of (r, g') \<Rightarrow>
        (''conv_'' @ show_nat (now_id w) @ ''_'' @ take 13 (drop 2 (toString36 w r)), g'))"

text \<open>\<open>request.conversationId || generateConversationId()\<close>, evaluated at entry.\<close>

definition chooseConversationId ::
  "chat_world \<Rightarrow> random_source \<Rightarrow> ChatRequest \<Rightarrow> string \<times> random_source" where
  "chooseConversationId w g request =
     (case rq_conversationId request of
        None \<Rightarrow> generateConversationId w g
      | Some c \<Rightarrow> if c = [] then generateConversationId w g else (c, g))"

text \<open>\<open>request.language || 'en'\<close>.\<close>

definition language_or_en :: "ChatRequest \<Rightarrow> string" where
  "language_or_en request =
     (case rq_language request of
        None \<Rightarrow> ''en''
      | Some l \<Rightarrow> if l = [] then ''en'' else l)"

text \<open>\<open>s.toLowerCase()\<close> on the letters A to Z, and \<open>s.includes(sub)\<close>.\<close>

definition lower_char :: "char \<Rightarrow> char" where
  "lower_char c =
     (let n = (of_char c :: nat) in if 65 \<le> n \<and> n \<le> 90 then char_of (n + 32) else c)"

definition toLowerCase :: "string \<Rightarrow> string" where
  "toLowerCase s = map lower_char s"

fun includes_js :: "string \<Rightarrow> string \<Rightarrow> bool" where
  "includes_js [] sub = (sub = [])"
| "includes_js (c # cs) sub = (prefix sub (c # cs) \<or> includes_js cs sub)"

definition inferDocumentType :: "string \<Rightarrow> string option" where
  "inferDocumentType message =
     (let message_lower = toLowerCase message in
      if includes_js message_lower ''emergency'' \<or> includes_js message_lower ''danger''
         \<or> includes_js message_lower ''help'' then Some ''emergency''
      else if includes_js message_lower ''place'' \<or> includes_js message_lower ''location''
         \<or> includes_js message_lower ''visit'' then Some ''place''
      else if includes_js message_lower ''safety'' \<or> includes_js message_lower ''safe''
         then Some ''safety''
      else None)"

text \<open>
  \<^verbatim>\<open>function calculateConfidence(docs, response: string): number {
    if (!docs.length) return 0.3;
    const avgSimilarity = docs.reduce((sum, doc) => sum + doc.similarity, 0) / docs.length;
    const responseQuality = response.length > 50 ? 0.8 : 0.5;
    return Math.min(avgSimilarity * responseQuality, 1.0);
  }\<close>
\<close>

definition calculateConfidence :: "document list \<Rightarrow> string \<Rightarrow> number" where
  "calculateConfidence docs response =
     (if docs = [] then 3 / 10
      else (let avgSimilarity = foldl (\<lambda>sum doc. sum + doc_similarity doc) 0 docs / real (length docs);
                responseQuality = (if length response > 50 then 8 / 10 else 5 / 10)
            in min (avgSimilarity * responseQuality) 1))"

text \<open>The safety scores that are present and not zero, averaged; 0.5 without any.\<close>

definition safety_scores :: "document list \<Rightarrow> number list" where
  "safety_scores docs =
     concat (map (\<lambda>doc. case doc_metadata doc of
                            None \<Rightarrow> []
                          | Some m \<Rightarrow> (case meta_safetyScore m of
                                         None \<Rightarrow> []
                                       | Some x \<Rightarrow> if x = 0 then [] else [x])) docs)"

definition calculateSafetyScore :: "document list \<Rightarrow> number" where
  "calculateSafetyScore docs =
     (if docs = [] then 5 / 10
      else (let safetyScores = safety_scores docs
            in if safetyScores = [] then 5 / 10
               else foldl (\<lambda>sum score. sum + score) 0 safetyScores / real (length safetyScores)))"

text \<open>The first three documents of type \<open>place\<close> that carry a name.\<close>

definition place_of :: "document \<Rightarrow> place list" where
  "place_of doc =
     (case doc_metadata doc of
        None \<Rightarrow> []
      | Some m \<Rightarrow>
          (if meta_type m = Some ''place'' \<and> truthy (meta_name m)
           then [\<lparr>place_name = concat_text (meta_name m), place_category = meta_category m,
                   place_rating = meta_rating m, place_distance = meta_distance m\<rparr>]
           else []))"

definition extractNearbyPlaces :: "document list \<Rightarrow> place list" where
  "extractNearbyPlaces docs = take 3 (concat (map place_of docs))"

text \<open>A source of the response: the first 200 characters of the content and an ellipsis.\<close>

definition source_of :: "document \<Rightarrow> source_ref" where
  "source_of doc =
     \<lparr>src_id = doc_id doc,
      src_content = take 200 (doc_content doc) @ ''...'',
      src_similarity = doc_similarity doc,
      src_type = (case doc_metadata doc of
                    None \<Rightarrow> ''unknown''
                  | Some m \<Rightarrow> (if truthy (meta_type m) then concat_text (meta_type m)
                               else ''unknown''))\<rparr>"

text \<open>
  \<open>storeConversation\<close>: the insert is in its own \<open>try\<close>; a failure is logged and not
  thrown.
\<close>

definition storeConversation :: "chat_world \<Rightarrow> string \<Rightarrow> string \<Rightarrow> string \<Rightarrow> unit io" where
  "storeConversation w conversationId userMessage aiResponse =
     try_catch
       (bind (await (Db ''rag_conversations'' ''insert''
                       [(''conversation_id'', Some conversationId),
                        (''user_message'', Some userMessage),
                        (''ai_response'', Some aiResponse)])
                    (conversations_insert w)) (\<lambda>_. ret ()))
       (\<lambda>error. effect (Log ''warn'' ''Failed to store conversation:''))"

text \<open>The answer written without a completion client; it quotes the message.\<close>

definition no_client_response :: "string \<Rightarrow> string" where
  "no_client_response message =
     ''I understand you'' @ [CHR 0x27] @ ''re asking about: '' @ [CHR 0x22] @ message @ [CHR 0x22]
     @ ''. While I don'' @ [CHR 0x27] @ ''t have access to AI services right now, I can tell you ''
     @ ''that this appears to be related to tourist safety. Please contact local authorities ''
     @ ''if this is an emergency, or check with tourist information centers for general inquiries.''"

text \<open>
  \<open>completion.choices[0]?.message?.content || '...'\<close>, on the contents of the choices.
\<close>

definition completion_text :: "string option list \<Rightarrow> string" where
  "completion_text choices =
     (case choices of
        [] \<Rightarrow> ''I apologize, but I cannot generate a response at this time.''
      | content # _ \<Rightarrow>
          (if truthy content then concat_text content
           else ''I apologize, but I cannot generate a response at this time.''))"

definition fallback_response :: "chat_world \<Rightarrow> ChatRequest \<Rightarrow> string \<Rightarrow> ChatResponse" where
  "fallback_response w request conversationId =
     \<lparr>rs_message = ''I apologize, but I am unable to process your request at this time. ''
                    @ ''Please try again later or contact support for assistance.'',
      rs_conversationId = conversationId,
      rs_context = EmptyContext,
      rs_sources = [],
      rs_confidence = 0,
      rs_language = language_or_en request,
      rs_processingTime = int (now_end w) - int (now_start w)\<rparr>"

text \<open>
  The body of the \<open>try\<close> of \<open>generateChatResponse\<close>: the embedding of the message, the
  search, the completion (or the answer written without a client), the confidence, the
  storing of the conversation, the response. Steps 3 and 4 of the source build two
  strings, with \<open>buildContextFromDocuments\<close> and \<open>buildSystemPrompt\<close>, that only enter
  the request sent to the completion service; both are string concatenations that cannot
  throw, and the model does not follow the text of that request.
\<close>

definition chat_steps ::
  "chat_world \<Rightarrow> random_source \<Rightarrow> ChatRequest \<Rightarrow> string \<Rightarrow> ChatResponse io" where
  "chat_steps w g request conversationId =
     (let queryEmbedding = fst (generateEmbedding (rq_message request) g);
          relevantDocs = searchSimilarDocuments queryEmbedding
             (Some \<lparr>opt_limit = Some 5, opt_threshold = Some (7 / 10),
                    opt_location = (case rq_context request of
                                      None \<Rightarrow> None
                                    | Some c \<Rightarrow> ctx_location c),
                    opt_type = inferDocumentType (rq_message request)\<rparr>)
      in
      bind (case openai w of
              None \<Rightarrow>
                bind (effect (Log ''warn'' ''OpenAI API key not configured, using fallback response''))
                  (\<lambda>_. ret (no_client_response (rq_message request)))
            | Some answer \<Rightarrow>
                bind (await (Call ''openai.chat.completions.create'') answer)
                  (\<lambda>choices. ret (completion_text choices))) (\<lambda>aiResponse.
      bind (storeConversation w conversationId (rq_message request) aiResponse) (\<lambda>_.
      ret \<lparr>rs_message = aiResponse,
           rs_conversationId = conversationId,
           rs_context = RagContext (case rq_context request of
                                      None \<Rightarrow> None
                                    | Some c \<Rightarrow> ctx_location c)
                                   (calculateSafetyScore relevantDocs)
                                   (extractNearbyPlaces relevantDocs),
           rs_sources = map source_of relevantDocs,
           rs_confidence = calculateConfidence relevantDocs aiResponse,
           rs_language = language_or_en request,
           rs_processingTime = int (now_end w) - int (now_start w)\<rparr>)))"

text \<open>
  \<open>generateChatResponse\<close>: the conversation id is chosen before the \<open>try\<close>; the
  \<open>catch\<close> logs the exception and returns the fallback response.
\<close>

definition generateChatResponse :: "chat_world \<Rightarrow> random_source \<Rightarrow> ChatRequest \<Rightarrow> ChatResponse io" where
  "generateChatResponse w g request =
     (case chooseConversationId w g request of (conversationId, g') \<Rightarrow>
        try_catch
          (chat_steps w g' request conversationId)
          (\<lambda>error.
             bind (effect (Log ''error'' ''Chat response generation failed:'')) (\<lambda>_.
             ret (fallback_response w request conversationId))))"

text \<open>A chat world whose completion service rejects, and a request without an id.\<close>

definition demo_chat_world :: chat_world where
  "demo_chat_world =
     \<lparr>openai = Some (Rejected (Thrown ''429 rate limit'')),
      conversations_insert = Resolved (),
      now_start = 3, now_id = 4, now_end = 9,
      toString36 = (\<lambda>x. ''0.abcdefghijklmnopq'')\<rparr>"

text \<open>A chat world without a completion client, whose database rejects the insert.\<close>

definition demo_chat_world_store_fails :: chat_world where
  "demo_chat_world_store_fails =
     \<lparr>openai = None,
      conversations_insert = Rejected (Thrown ''database down''),
      now_start = 3, now_id = 4, now_end = 9,
      toString36 = (\<lambda>x. ''0.abcdefghijklmnopq'')\<rparr>"

definition demo_chat_request :: ChatRequest where
  "demo_chat_request =
     \<lparr>rq_message = ''Is the old fort safe?'', rq_context = None,
      rq_conversationId = None, rq_language = Some ''hi''\<rparr>"

section \<open>Reading traces\<close>

text \<open>
  The steps of the alert-creation flow, as they show in a trace: the geofence check is
  the call of the database function, the creation of the alert is the insert into
  \<open>alerts\<close>, the socket broadcast is the \<open>new_alert\<close> event, the push notification and
  the blockchain anchoring are the calls of their service functions.
\<close>

datatype step = GeofenceCheck | InsertAlert | SocketBroadcast | PushNotification | BlockchainAnchoring

fun step_of :: "effect \<Rightarrow> step list" where
  "step_of (Rpc f args) = (if f = ''check_point_in_geofences'' then [GeofenceCheck] else [])"
| "step_of (Db t op cols) = (if t = ''alerts'' \<and> op = ''insert'' then [InsertAlert] else [])"
| "step_of (Emit room ev k) = (if ev = ''new_alert'' then [SocketBroadcast] else [])"
| "step_of (Call f) =
     (if f = ''sendPushNotification'' then [PushNotification]
      else if f = ''anchorToBlockchain'' then [BlockchainAnchoring]
      else [])"
| "step_of (ChainSend h) = []"
| "step_of ChainWait = []"
| "step_of (Log level text) = []"

definition steps :: "effect list \<Rightarrow> step list" where
  "steps tr = concat (map step_of tr)"

text \<open>\<open>in_order xs ys\<close>: the elements of \<open>xs\<close> occur in \<open>ys\<close>, in this order.\<close>

fun in_order :: "'a list \<Rightarrow> 'a list \<Rightarrow> bool" where
  "in_order [] ys = True"
| "in_order (x # xs) [] = False"
| "in_order (x # xs) (y # ys) = (if x = y then in_order xs ys else in_order (x # xs) ys)"

text \<open>The database operations of a trace, as pairs of table and operation.\<close>

fun db_op :: "effect \<Rightarrow> (string \<times> string) list" where
  "db_op (Db t op cols) = [(t, op)]"
| "db_op (Rpc f args) = []"
| "db_op (Emit room ev k) = []"
| "db_op (Call f) = []"
| "db_op (ChainSend h) = []"
| "db_op ChainWait = []"
| "db_op (Log level text) = []"

definition db_ops :: "effect list \<Rightarrow> (string \<times> string) list" where
  "db_ops tr = concat (map db_op tr)"

text \<open>The writes to the chain of a trace.\<close>

fun chain_write :: "effect \<Rightarrow> bool" where
  "chain_write (ChainSend h) = True"
| "chain_write ChainWait = True"
| "chain_write (Db t op cols) = False"
| "chain_write (Rpc f args) = False"
| "chain_write (Emit room ev k) = False"
| "chain_write (Call f) = False"
| "chain_write (Log level text) = False"

text \<open>A trace without its log lines.\<close>

fun is_log :: "effect \<Rightarrow> bool" where
  "is_log (Log level text) = True"
| "is_log (Db t op cols) = False"
| "is_log (Rpc f args) = False"
| "is_log (Emit room ev k) = False"
| "is_log (Call f) = False"
| "is_log (ChainSend h) = False"
| "is_log ChainWait = False"

definition unlogged :: "effect list \<Rightarrow> effect list" where
  "unlogged tr = filter (\<lambda>e. \<not> is_log e) tr"

text \<open>An answer of the database function that is an error object or a rejection.\<close>

definition geofence_failure :: "(string + geofence_hit list option) awaited \<Rightarrow> bool" where
  "geofence_failure answer =
     (case answer of
        Resolved (Inl error) \<Rightarrow> True
      | Resolved (Inr rows) \<Rightarrow> False
      | Rejected e \<Rightarrow> True)"

text \<open>The same world, with a database function that finds the point in no geofence.\<close>

definition no_geofences :: "request_world \<Rightarrow> request_world" where
  "no_geofences w =
     w\<lparr>db_geo := (db_geo w)\<lparr>check_point_in_geofences := (\<lambda>lat lng. Resolved (Inr (Some [])))\<rparr>\<rparr>"

section \<open>A concrete world\<close>

text \<open>
  Answers for concrete evaluations. The two library functions are stand-ins that keep
  their argument readable; nothing proved below for all worlds depends on them.
\<close>

definition demo_sha256 :: "string \<Rightarrow> string" where
  "demo_sha256 s = ''sha256<'' @ s @ ''>''"

definition demo_stringify :: "(string \<times> string option) list \<Rightarrow> string" where
  "demo_stringify obj = concat (map (\<lambda>(k, v). k @ '':'' @ concat_text v @ '';'') obj)"

definition demo_chain :: chain_world where
  "demo_chain =
     \<lparr>MOCK_BLOCKCHAIN = Some ''true'', POLYGON_RPC_URL = None, CONTRACT_ADDRESS = None,
      ENCRYPTION_KEY = Some ''key'', sha256_hex = demo_sha256, JSON_stringify = demo_stringify,
      randomBytes_hex = ''00112233445566778899aabbccddeeff00112233'',
      now_mock_row = 7, now_mock_result = 8, now_fallback = 9,
      anchors_insert = Resolved (), fallback_insert = Resolved (),
      Wallet_new = Resolved (), storeHash = Resolved ''0xabc'',
      tx_wait = Resolved (''0xabc'', 42)\<rparr>"

text \<open>The same with a chain endpoint configured and mock mode not requested.\<close>

definition demo_chain_live :: chain_world where
  "demo_chain_live = demo_chain\<lparr>MOCK_BLOCKCHAIN := None, POLYGON_RPC_URL := Some ''https://rpc''\<rparr>"

definition demo_data :: anchor_data where
  "demo_data =
     \<lparr>ad_alert_id = Some ''a1'', ad_user_id = Some ''u1'', ad_type = ''panic'',
      ad_severity = Some ''critical'', ad_timestamp = ''t0'', ad_location_hash = Some ''28,77''\<rparr>"

definition demo_hit :: geofence_hit where
  "demo_hit = \<lparr>hit_geofence_id = ''g1'', hit_name = ''Old fort'', hit_type = ''restricted'',
               hit_description = None\<rparr>"

definition demo_geo :: geofence_db where
  "demo_geo =
     \<lparr>check_point_in_geofences = (\<lambda>lat lng. Resolved (Inr (Some [demo_hit]))),
      geofences_insert = Resolved (Inr ''g2''),
      geofences_select =
        Resolved (Inr (Some [\<lparr>gf_id = ''g1'', gf_name = ''Old fort'', gf_type = ''restricted'',
                                gf_description = None, gf_geometry = ''POLYGON((2 1, 4 3, 2 1))'',
                                gf_created_at = ''t0''\<rparr>]))\<rparr>"

definition demo_alert :: alert_row where
  "demo_alert =
     \<lparr>alert_id = ''a1'', alert_type = ''panic'', alert_severity = ''critical'',
      alert_status = ''active'', alert_latitude = 28, alert_longitude = 77,
      alert_message = None, alert_created_at = ''t0''\<rparr>"

definition demo_location :: location_row where
  "demo_location =
     \<lparr>location_id = ''l1'', location_latitude = 28, location_longitude = 77,
      location_accuracy = 10, location_created_at = ''t0''\<rparr>"

definition demo_world :: request_world where
  "demo_world =
     \<lparr>db_geo = demo_geo, chain = demo_chain,
      tourists_single = Resolved (Inr \<lparr>t_name = ''Asha'', t_phone_number = ''100'',
                                        t_emergency_contact = None\<rparr>),
      alerts_insert = Resolved (Inr demo_alert),
      locations_insert = Resolved (Inr demo_location),
      alerts_update = Resolved (),
      sendPushNotification = Resolved (),
      detectAnomalies = Resolved None,
      number_toString = whole_toString\<rparr>"

definition demo_request :: panic_request where
  "demo_request =
     \<lparr>pq_latitude = 28, pq_longitude = 77, pq_message = None, pq_severity = ''critical'',
      pq_type = ''panic'', pq_userId = ''u1''\<rparr>"


definition demo_world_insert_error :: request_world where
  "demo_world_insert_error = demo_world\<lparr>alerts_insert := Resolved (Inl ''insert failed'')\<rparr>"

definition demo_world_geofence_error :: request_world where
  "demo_world_geofence_error =
     demo_world\<lparr>db_geo := demo_geo\<lparr>check_point_in_geofences :=
                                     (\<lambda>lat lng. Resolved (Inl ''function missing''))\<rparr>\<rparr>"

text \<open>A radius search: one tourist, at the distance the database computed.\<close>

definition demo_nearby_row :: nearby_row where
  "demo_nearby_row =
     \<lparr>nr_user_id = ''u1'', nr_name = ''Asha'', nr_latitude = 1, nr_longitude = 2,
      nr_distance = 340, nr_last_location_time = ''t0'', nr_status = ''active''\<rparr>"

definition demo_nearby_db :: nearby_db where
  "demo_nearby_db = \<lparr>get_nearby_tourists = (\<lambda>lat lng r. Resolved (Inr (Some [demo_nearby_row])))\<rparr>"

definition demo_nearby_request :: nearby_request where
  "demo_nearby_request =
     \<lparr>nq_latitude = Some ''1'', nq_longitude = Some ''2'', nq_radius = None, nq_role = ''police''\<rparr>"

definition demo_update :: update_request where
  "demo_update = \<lparr>uq_latitude = 28, uq_longitude = 77, uq_userId = ''u1''\<rparr>"

section \<open>Properties of the embedding service\<close>

lemma map_random_length: "length (fst (map_random xs g)) = length xs"
  by (induction xs arbitrary: g) (simp_all add: Math_random_def case_prod_beta)

lemma map_random_used: "used (snd (map_random xs g)) = used g + length xs"
  by (induction xs arbitrary: g) (simp_all add: Math_random_def case_prod_beta)

lemma map_random_draws: "draws (snd (map_random xs g)) = draws g"
  by (induction xs arbitrary: g) (simp_all add: Math_random_def case_prod_beta)

lemma map_random_nth:
  "i < length xs \<Longrightarrow> fst (map_random xs g) ! i = draws g (used g + i)"
proof (induction xs arbitrary: g i)
  case Nil
  then show ?case by simp
next
  case (Cons x xs)
  show ?case
  proof (cases i)
    case 0
    then show ?thesis by (simp add: Math_random_def case_prod_beta)
  next
    case (Suc j)
    with Cons.prems have "j < length xs" by simp
    from Cons.IH [OF this, of "g\<lparr>used := Suc (used g)\<rparr>"] Suc
    show ?thesis by (simp add: Math_random_def case_prod_beta)
  qed
qed

text \<open>
  C5. For every input string, \<open>generateEmbedding\<close> returns exactly 1536 numbers; the
  \<open>i\<close>-th of them is the \<open>i\<close>-th number the random source hands out from where it
  stands, so each lies in \<open>[0, 1)\<close> when the source's numbers do; and two calls on
  different texts with the same source return the same vector.
\<close>

theorem generateEmbedding_random:
  "length (fst (generateEmbedding text g)) = 1536
   \<and> (\<forall>i < 1536. fst (generateEmbedding text g) ! i = draws g (used g + i))
   \<and> ((\<forall>k. 0 \<le> draws g k \<and> draws g k < 1) \<longrightarrow>
        (\<forall>x \<in> set (fst (generateEmbedding text g)). 0 \<le> x \<and> x < 1))
   \<and> generateEmbedding text g = generateEmbedding text' g"
proof -
  let ?v = "fst (generateEmbedding text g)"
  have len: "length ?v = 1536"
    by (simp add: generateEmbedding_def map_random_length)
  have nth: "\<forall>i < 1536. ?v ! i = draws g (used g + i)"
    by (simp add: generateEmbedding_def map_random_nth)
  have range: "\<forall>x \<in> set ?v. 0 \<le> x \<and> x < 1" if "\<forall>k. 0 \<le> draws g k \<and> draws g k < 1"
  proof
    fix x assume "x \<in> set ?v"
    then obtain i where "i < length ?v" "?v ! i = x" by (auto simp: in_set_conv_nth)
    with len nth that show "0 \<le> x \<and> x < 1" by auto
  qed
  have "generateEmbedding text g = generateEmbedding text' g"
    by (simp add: generateEmbedding_def)
  with len nth range show ?thesis by blast
qed

theorem generateEmbedding_random_witness:
  "(\<forall>k. 0 \<le> draws (constant_source (1 / 2)) k \<and> draws (constant_source (1 / 2)) k < 1)
   \<and> length (fst (generateEmbedding ''help'' (constant_source (1 / 2)))) = 1536
   \<and> list_all (\<lambda>x. 0 \<le> x \<and> x < 1)
         (fst (generateEmbedding ''help'' (constant_source (1 / 2))))
   \<and> generateEmbedding ''help'' (constant_source (1 / 2))
       = generateEmbedding ''a safe place'' (constant_source (1 / 2))"
proof -
  have h: "\<forall>k. 0 \<le> draws (constant_source (1 / 2)) k \<and> draws (constant_source (1 / 2)) k < 1"
    by (simp add: constant_source_def)
  from generateEmbedding_random
    [of "''help''" "constant_source (1 / 2)" "''a safe place''"] h
  show ?thesis unfolding list_all_iff by blast
qed

text \<open>
  C6. For every query embedding and every options value, \<open>searchSimilarDocuments\<close>
  returns the same one-element list: the document with id \<open>doc1\<close>, content
  \<open>Sample document content for testing\<close>, similarity 0.85 and metadata type
  \<open>place\<close>. The arguments have no effect on the result.
\<close>

theorem searchSimilarDocuments_hardcoded:
  "(\<exists>d. searchSimilarDocuments embedding options = [d]
        \<and> doc_id d = ''doc1''
        \<and> doc_content d = ''Sample document content for testing''
        \<and> doc_similarity d = 85 / 100
        \<and> map_option meta_type (doc_metadata d) = Some (Some ''place''))
   \<and> searchSimilarDocuments embedding options = searchSimilarDocuments embedding' options'"
  by (simp add: searchSimilarDocuments_def)


section \<open>Laws of computations\<close>

lemma io_ret [simp]: "trace (ret x) = []" "outcome (ret x) = Inr x"
  by (simp_all add: trace_def outcome_def ret_def)

lemma io_throw [simp]: "trace (throw e) = []" "outcome (throw e) = Inl e"
  by (simp_all add: trace_def outcome_def throw_def)

lemma io_effect [simp]: "trace (effect ev) = [ev]" "outcome (effect ev) = Inr ()"
  by (simp_all add: trace_def outcome_def effect_def)

lemma io_await [simp]:
  "trace (await ev a) = [ev]"
  "outcome (await ev a) = (case a of Resolved x \<Rightarrow> Inr x | Rejected e \<Rightarrow> Inl e)"
  by (simp_all add: trace_def outcome_def await_def)

lemma io_bind [simp]:
  "trace (bind m f) = (case outcome m of Inl e \<Rightarrow> trace m | Inr x \<Rightarrow> trace m @ trace (f x))"
  "outcome (bind m f) = (case outcome m of Inl e \<Rightarrow> Inl e | Inr x \<Rightarrow> outcome (f x))"
  by (simp_all add: trace_def outcome_def bind_def split: prod.splits sum.splits)

lemma io_try_catch [simp]:
  "trace (try_catch m h) = (case outcome m of Inl e \<Rightarrow> trace m @ trace (h e) | Inr x \<Rightarrow> trace m)"
  "outcome (try_catch m h) = (case outcome m of Inl e \<Rightarrow> outcome (h e) | Inr x \<Rightarrow> Inr x)"
  by (simp_all add: trace_def outcome_def try_catch_def split: prod.splits sum.splits)

lemma io_handler [simp]:
  "fst (handler m) = trace m"
  "snd (handler m) = (case outcome m of Inr (status, body) \<Rightarrow> Responded status body | Inl e \<Rightarrow> Next e)"
  by (simp_all add: trace_def outcome_def handler_def split: prod.splits sum.splits)

lemma io_if [simp]:
  "trace (if b then m else n) = (if b then trace m else trace n)"
  "outcome (if b then m else n) = (if b then outcome m else outcome n)"
  by simp_all

lemma steps_simps [simp]:
  "steps [] = []" "steps (e # tr) = step_of e @ steps tr" "steps (tr @ tr') = steps tr @ steps tr'"
  by (simp_all add: steps_def)

lemma db_ops_simps [simp]:
  "db_ops [] = []" "db_ops (e # tr) = db_op e @ db_ops tr" "db_ops (tr @ tr') = db_ops tr @ db_ops tr'"
  by (simp_all add: db_ops_def)

lemma unlogged_simps [simp]:
  "unlogged [] = []" "unlogged (e # tr) = (if is_log e then unlogged tr else e # unlogged tr)"
  "unlogged (tr @ tr') = unlogged tr @ unlogged tr'"
  by (simp_all add: unlogged_def)

section \<open>Properties of the JavaScript string functions\<close>

lemma replace_prefix: "replace_js ''POLYGON(('' [] (''POLYGON(('' @ r) = r"
  by simp

lemma replace_close: "CHR '')'' \<notin> set b \<Longrightarrow> replace_js ''))'' [] (b @ ''))'') = b"
  by (induction b) auto

lemma split_none: "sep \<noteq> [] \<Longrightarrow> hd sep \<notin> set x \<Longrightarrow> split_js sep x = [x]"
  by (induction x) (auto simp: prefix_def neq_Nil_conv)

lemma split_first:
  "sep \<noteq> [] \<Longrightarrow> hd sep \<notin> set x \<Longrightarrow> split_js sep (x @ sep @ r) = x # split_js sep r"
  by (induction x) (auto simp: prefix_def neq_Nil_conv)

lemma split_join:
  "sep \<noteq> [] \<Longrightarrow> xs \<noteq> [] \<Longrightarrow> \<forall>x \<in> set xs. hd sep \<notin> set x \<Longrightarrow> split_js sep (join_js sep xs) = xs"
  by (induction sep xs rule: join_js.induct) (auto simp: split_none split_first)

lemma join_snoc: "xs \<noteq> [] \<Longrightarrow> join_js sep (xs @ [y]) = join_js sep xs @ sep @ y"
  by (induction sep xs rule: join_js.induct) auto

lemma set_join: "set (join_js sep xs) \<subseteq> set sep \<union> \<Union> (set ` set xs)"
  by (induction sep xs rule: join_js.induct) auto

lemma trim_id:
  assumes "s \<noteq> []" "\<not> is_whitespace (hd s)" "\<not> is_whitespace (last s)"
  shows "trim_js s = s"
proof -
  from assms have front: "dropWhile is_whitespace s = s"
    by (cases s) auto
  from assms have "rev s \<noteq> []" "\<not> is_whitespace (hd (rev s))"
    by (auto simp: hd_rev)
  then have "dropWhile is_whitespace (rev s) = rev s"
    by (cases "rev s") auto
  with front show ?thesis by (simp add: trim_js_def)
qed

lemma number_text_chars:
  assumes "number_text s"
  shows "s \<noteq> []" and "CHR '' '' \<notin> set s" and "CHR '','' \<notin> set s" and "CHR '')'' \<notin> set s"
    and "\<not> is_whitespace (hd s)" and "\<not> is_whitespace (last s)"
proof -
  from assms show ne: "s \<noteq> []" by (simp add: number_text_def)
  from assms have all: "\<And>c. c \<in> set s \<Longrightarrow> c \<in> set ''0123456789.e+-InfityNa''"
    by (simp add: number_text_def list_all_iff)
  have ws: "\<not> is_whitespace c" if "c \<in> set s" for c
    using all [OF that] by (auto simp: is_whitespace_def)
  show "CHR '' '' \<notin> set s"
    using all [of "CHR '' ''"] by auto
  show "CHR '','' \<notin> set s"
    using all [of "CHR '',''"] by auto
  show "CHR '')'' \<notin> set s"
    using all [of "CHR '')''"] by auto
  from ne show "\<not> is_whitespace (hd s)" and "\<not> is_whitespace (last s)"
    by (simp_all add: ws)
qed

lemma parse_coord_token:
  assumes a: "number_text a" and b: "number_text b"
  shows "parse_coord N (a @ '' '' @ b) = (Some (N b), Some (N a))"
proof -
  let ?t = "a @ '' '' @ b"
  have "hd ?t = hd a" "last ?t = last b"
    using number_text_chars(1) [OF a] number_text_chars(1) [OF b] by simp_all
  then have "trim_js ?t = ?t"
    using number_text_chars(5) [OF a] number_text_chars(6) [OF b]
    by (intro trim_id) simp_all
  moreover have "split_js '' '' ?t = [a, b]"
    using split_first [of "'' ''" a b] split_none [of "'' ''" b]
      number_text_chars(2) [OF a] number_text_chars(2) [OF b] by simp
  ultimately show ?thesis by (simp add: parse_coord_def)
qed


lemma coord_text_chars:
  assumes "number_text (toString lat)" "number_text (toString lng)"
  shows "CHR '','' \<notin> set (coord_text toString (lat, lng))"
    and "CHR '')'' \<notin> set (coord_text toString (lat, lng))"
  using number_text_chars(3,4) [OF assms(1)] number_text_chars(3,4) [OF assms(2)]
  by simp_all

text \<open>
  C8. For every non-empty list of \<open>[lat, lng]\<close> pairs, \<open>parsePolygonCoordinates\<close>
  applied to the polygon text built by \<open>createGeofence\<close> (the text it inserts as the
  geometry of the new row) returns the original list
  of pairs, provided the conversions between numbers and text are exact on the
  coordinates: the text of each coordinate is the text of a number, and reading it gives
  the coordinate back.
\<close>

theorem roundtrip:
  assumes ne: "coordinates \<noteq> []"
    and texts: "\<forall>(lat, lng) \<in> set coordinates. number_text (toString lat) \<and> number_text (toString lng)"
    and conv: "\<forall>(lat, lng) \<in> set coordinates. Number (toString lat) = lat \<and> Number (toString lng) = lng"
  shows "\<exists>wkt. outcome (polygonWKT toString coordinates) = Inr wkt
           \<and> hd (trace (createGeofence db toString name gtype coordinates description createdBy))
               = Db ''geofences'' ''insert''
                   [(''name'', Some name), (''type'', Some gtype), (''description'', description),
                    (''geometry'', Some wkt), (''is_active'', Some ''true''),
                    (''created_by'', createdBy)]
           \<and> parsePolygonCoordinates Number wkt = map (\<lambda>(lat, lng). (Some lat, Some lng)) coordinates"
proof -
  obtain lat0 lng0 rest where c: "coordinates = (lat0, lng0) # rest"
    using ne by (cases coordinates) auto
  define closed where "closed = coordinates @ [(lat0, lng0)]"
  define toks where "toks = map (coord_text toString) closed"
  define body where "body = join_js '', '' toks"
  have in_closed: "p \<in> set coordinates" if "p \<in> set closed" for p
    using that c by (auto simp: closed_def)
  have body_eq: "body = polygonCoords toString coordinates @ '', '' @ toString lng0 @ '' '' @ toString lat0"
    using join_snoc [of "map (coord_text toString) coordinates" "'', ''" "coord_text toString (lat0, lng0)"] ne
    by (simp add: polygonCoords_def body_def toks_def closed_def)
  have wkt: "outcome (polygonWKT toString coordinates) = Inr (''POLYGON(('' @ body @ ''))'')"
    unfolding body_eq by (simp add: polygonWKT_def c outcome_def ret_def)
  have tok_chars: "CHR '','' \<notin> set t \<and> CHR '')'' \<notin> set t" if "t \<in> set toks" for t
  proof -
    from that obtain lat lng where p: "(lat, lng) \<in> set closed" "t = coord_text toString (lat, lng)"
      by (auto simp: toks_def)
    from in_closed [OF p(1)] texts
    have "number_text (toString lat)" "number_text (toString lng)" by auto
    from coord_text_chars [OF this] p(2) show ?thesis by simp
  qed
  have no_close: "CHR '')'' \<notin> set body"
  proof
    assume "CHR '')'' \<in> set body"
    with set_join [of "'', ''" toks]
    obtain t where "t \<in> set toks" "CHR '')'' \<in> set t" by (auto simp: body_def)
    with tok_chars show False by blast
  qed
  have stripped: "replace_js ''))'' [] (replace_js ''POLYGON(('' [] (''POLYGON(('' @ body @ ''))'')) = body"
    using replace_close [OF no_close] by simp
  have "toks \<noteq> []" by (simp add: toks_def closed_def)
  then have pieces: "split_js '', '' body = toks"
    unfolding body_def using tok_chars by (intro split_join) auto
  have parsed: "map (parse_coord Number) toks = map (\<lambda>(lat, lng). (Some lat, Some lng)) closed"
  proof -
    have "parse_coord Number (coord_text toString p) = (\<lambda>(lat, lng). (Some lat, Some lng)) p"
      if "p \<in> set closed" for p
    proof (cases p)
      case (Pair lat lng)
      with in_closed [OF that] texts conv
      have "number_text (toString lat)" "number_text (toString lng)"
        "Number (toString lat) = lat" "Number (toString lng) = lng" by auto
      with Pair parse_coord_token [of "toString lng" "toString lat" Number]
      show ?thesis by simp
    qed
    then show ?thesis by (simp add: toks_def)
  qed
  have "parsePolygonCoordinates Number (''POLYGON(('' @ body @ ''))'')
          = butlast (map (\<lambda>(lat, lng). (Some lat, Some lng)) closed)"
    unfolding parsePolygonCoordinates_def stripped pieces parsed ..
  also have "\<dots> = map (\<lambda>(lat, lng). (Some lat, Some lng)) coordinates"
    by (simp add: closed_def)
  finally have parse: "parsePolygonCoordinates Number (''POLYGON(('' @ body @ ''))'')
          = map (\<lambda>(lat, lng). (Some lat, Some lng)) coordinates" .
  have "trace (polygonWKT toString coordinates) = []"
    by (simp add: polygonWKT_def c)
  with wkt have "hd (trace (createGeofence db toString name gtype coordinates description createdBy))
               = Db ''geofences'' ''insert''
                   [(''name'', Some name), (''type'', Some gtype), (''description'', description),
                    (''geometry'', Some (''POLYGON(('' @ body @ ''))'')), (''is_active'', Some ''true''),
                    (''created_by'', createdBy)]"
    by (simp add: createGeofence_def split: awaited.splits sum.splits)
  with wkt parse show ?thesis by blast
qed

lemma show_nat_digit: "n < 10 \<Longrightarrow> show_nat n = [digit_char n]"
  by (subst show_nat.simps) (simp del: digit_char.simps)

lemma whole_toString_values:
  "whole_toString 1 = ''1''" "whole_toString 2 = ''2''" "whole_toString 3 = ''3''" "whole_toString 4 = ''4''"
  by (simp_all add: whole_toString_def show_nat_digit)

lemma whole_Number_values:
  "whole_Number ''1'' = 1" "whole_Number ''2'' = 2" "whole_Number ''3'' = 3" "whole_Number ''4'' = 4"
  by (simp_all add: whole_Number_def digit_value_def)

theorem roundtrip_witness:
  "[(1, 2), (3, 4)] \<noteq> ([] :: (number \<times> number) list)
   \<and> list_all (\<lambda>(lat, lng). number_text (whole_toString lat) \<and> number_text (whole_toString lng)
                   \<and> whole_Number (whole_toString lat) = lat \<and> whole_Number (whole_toString lng) = lng)
        [(1, 2), (3, 4)]
   \<and> outcome (polygonWKT whole_toString [(1, 2), (3, 4)]) = Inr ''POLYGON((2 1, 4 3, 2 1))''
   \<and> hd (trace (createGeofence demo_geo whole_toString ''Old fort'' ''restricted''
                   [(1, 2), (3, 4)] None None))
       = Db ''geofences'' ''insert''
           [(''name'', Some ''Old fort''), (''type'', Some ''restricted''), (''description'', None),
            (''geometry'', Some ''POLYGON((2 1, 4 3, 2 1))''), (''is_active'', Some ''true''),
            (''created_by'', None)]
   \<and> parsePolygonCoordinates whole_Number ''POLYGON((2 1, 4 3, 2 1))''
       = [(Some 1, Some 2), (Some 3, Some 4)]"
proof -
  have h: "\<forall>(lat, lng) \<in> set [(1, 2), (3, 4)].
             number_text (whole_toString lat) \<and> number_text (whole_toString lng)"
    "\<forall>(lat, lng) \<in> set [(1, 2), (3, 4)].
             whole_Number (whole_toString lat) = lat \<and> whole_Number (whole_toString lng) = lng"
    by (simp_all add: whole_toString_values whole_Number_values number_text_def)
  have w: "outcome (polygonWKT whole_toString [(1, 2), (3, 4)]) = Inr ''POLYGON((2 1, 4 3, 2 1))''"
    by (simp add: polygonWKT_def polygonCoords_def outcome_def ret_def whole_toString_values)
  from roundtrip [of "[(1, 2), (3, 4)]" whole_toString whole_Number demo_geo "''Old fort''"
      "''restricted''" None None, OF _ h] w h
  show ?thesis by (simp add: list_all_iff)
qed


section \<open>checkGeofences\<close>

lemma checkGeofences_outcome:
  "outcome (checkGeofences db lat lng) =
     Inr (case check_point_in_geofences db lat lng of
            Resolved (Inr (Some rows)) \<Rightarrow> map violation_of_hit rows
          | _ \<Rightarrow> [])"
  by (simp add: checkGeofences_def split: awaited.splits sum.splits option.splits)

lemma checkGeofences_trace:
  "trace (checkGeofences db lat lng) =
     Rpc ''check_point_in_geofences'' [(''point_lat'', lat), (''point_lng'', lng)] #
     (case check_point_in_geofences db lat lng of
        Resolved (Inr rows) \<Rightarrow> []
      | Resolved (Inl err) \<Rightarrow> [Log ''error'' ''Geofence check failed:'']
      | Rejected e \<Rightarrow> [Log ''error'' ''Geofence service error:''])"
  by (simp add: checkGeofences_def split: awaited.splits sum.splits option.splits)

section \<open>anchorToBlockchain\<close>

lemma deployContract_io [simp]:
  "outcome (deployContract w) = Inr (''0x'' @ randomBytes_hex w)"
  "trace (deployContract w) = [Log ''info'' ''Mock contract deployed at:'']"
  by (simp_all add: deployContract_def)

lemma anchor_mock_io:
  "steps (trace (anchor_mock w d)) = []"
  "db_ops (trace (anchor_mock w d)) = [(''blockchain_anchors'', ''insert'')]"
  "list_all (\<lambda>e. \<not> chain_write e) (trace (anchor_mock w d))"
  "outcome (anchor_mock w d) =
     (case anchors_insert w of
        Resolved u \<Rightarrow>
          Inr \<lparr>ba_hash = ''0x'' @ sha256_hex w (dataString w d), ba_network = ''mock'',
               ba_transactionHash = Some (''mock_tx_'' @ show_nat (now_mock_result w)),
               ba_blockNumber = None\<rparr>
      | Rejected e \<Rightarrow> Inl e)"
  by (simp_all add: anchor_mock_def bytes32Hash_def split: awaited.splits)

lemma anchor_live_io:
  "steps (trace (anchor_live w d)) = []"
  "list_all (\<lambda>p. p = (''blockchain_anchors'', ''insert'')) (db_ops (trace (anchor_live w d)))"
  by (simp_all add: anchor_live_def split: awaited.splits option.splits)

lemma anchor_fallback_io:
  "steps (trace (anchor_fallback w d e)) = []"
  "db_ops (trace (anchor_fallback w d e)) = [(''blockchain_anchors'', ''insert'')]"
  "list_all (\<lambda>e. \<not> chain_write e) (trace (anchor_fallback w d e))"
  "\<exists>e'. outcome (anchor_fallback w d e) = Inl e'"
  by (simp_all add: anchor_fallback_def split: awaited.splits)

lemma anchor_steps: "steps (trace (anchorToBlockchain w d)) = []"
  by (simp add: anchorToBlockchain_def anchor_mock_io anchor_live_io anchor_fallback_io split: sum.splits)

lemma anchor_db_ops:
  "list_all (\<lambda>p. p = (''blockchain_anchors'', ''insert'')) (db_ops (trace (anchorToBlockchain w d)))"
  using anchor_live_io(2) [of w d]
  by (simp add: anchorToBlockchain_def anchor_mock_io anchor_fallback_io split: sum.splits)

lemma anchor_in_mock_mode:
  assumes "mock_mode w"
  shows "list_all (\<lambda>e. \<not> chain_write e) (trace (anchorToBlockchain w d))"
    and "anchors_insert w = Resolved u \<Longrightarrow>
         outcome (anchorToBlockchain w d) =
           Inr \<lparr>ba_hash = ''0x'' @ sha256_hex w (dataString w d), ba_network = ''mock'',
                ba_transactionHash = Some (''mock_tx_'' @ show_nat (now_mock_result w)),
                ba_blockNumber = None\<rparr>"
  using assms
  by (simp_all add: anchorToBlockchain_def anchor_mock_io anchor_fallback_io split: sum.splits)

section \<open>The panic handler\<close>

lemma notify_io:
  "outcome (notify_authorities w req) = Inr ()"
  "steps (trace (notify_authorities w req)) =
     (if pq_severity req = ''critical'' \<or> pq_severity req = ''high'' then [PushNotification] else [])"
  "db_ops (trace (notify_authorities w req)) = []"
  by (simp_all add: notify_authorities_def split: awaited.splits)

lemma list_all_weaken: "list_all P xs \<Longrightarrow> (\<And>x. P x \<Longrightarrow> Q x) \<Longrightarrow> list_all Q xs"
  by (simp add: list_all_iff)


lemma anchor_alert_io:
  "outcome (anchor_alert w req alert) = Inr ()"
  "steps (trace (anchor_alert w req alert)) =
     (if pq_severity req = ''critical'' then [BlockchainAnchoring] else [])"
  "list_all (\<lambda>p. p = (''blockchain_anchors'', ''insert'') \<or> p = (''alerts'', ''update''))
     (db_ops (trace (anchor_alert w req alert)))"
proof -
  show "outcome (anchor_alert w req alert) = Inr ()"
    by (simp add: anchor_alert_def split: sum.splits awaited.splits)
  show "steps (trace (anchor_alert w req alert)) =
     (if pq_severity req = ''critical'' then [BlockchainAnchoring] else [])"
    by (simp add: anchor_alert_def anchor_steps split: sum.splits awaited.splits)
  have "list_all (\<lambda>p. p = (''blockchain_anchors'', ''insert'') \<or> p = (''alerts'', ''update''))
          (db_ops (trace (anchorToBlockchain (chain w) d)))" for d
    by (rule list_all_weaken [OF anchor_db_ops]) simp
  then show "list_all (\<lambda>p. p = (''blockchain_anchors'', ''insert'') \<or> p = (''alerts'', ''update''))
     (db_ops (trace (anchor_alert w req alert)))"
    by (simp add: anchor_alert_def split: sum.splits awaited.splits)
qed

lemma checkGeofences_steps: "steps (trace (checkGeofences db lat lng)) = [GeofenceCheck]"
  by (simp add: checkGeofences_trace split: awaited.splits sum.splits)


lemma panic_steps_steps:
  "steps (trace (panic_steps w req)) =
     (case tourists_single w of
        Rejected e \<Rightarrow> []
      | Resolved user \<Rightarrow>
          GeofenceCheck # InsertAlert #
          (case alerts_insert w of
             Resolved (Inr alert) \<Rightarrow>
               (case locations_insert w of
                  Rejected e \<Rightarrow> []
                | Resolved l \<Rightarrow>
                    SocketBroadcast #
                    (if pq_severity req = ''critical'' \<or> pq_severity req = ''high''
                     then [PushNotification] else []) @
                    (if pq_severity req = ''critical'' then [BlockchainAnchoring] else []))
           | Resolved (Inl err) \<Rightarrow> []
           | Rejected e \<Rightarrow> []))"
  by (simp add: panic_steps_def checkGeofences_outcome checkGeofences_steps notify_io anchor_alert_io
           split: awaited.splits sum.splits)

lemma panic_steps_outcome:
  "outcome (panic_steps w req) =
     (case tourists_single w of
        Rejected e \<Rightarrow> Inl e
      | Resolved user \<Rightarrow>
          (case alerts_insert w of
             Rejected e \<Rightarrow> Inl e
           | Resolved (Inl err) \<Rightarrow> Inl (ApiError 500 ''Failed to create alert'')
           | Resolved (Inr alert) \<Rightarrow>
               (case locations_insert w of
                  Rejected e \<Rightarrow> Inl e
                | Resolved l \<Rightarrow>
                    (case outcome (checkGeofences (db_geo w) (pq_latitude req) (pq_longitude req)) of
                       Inr gv \<Rightarrow> Inr (201, panic_reply req alert gv)
                     | Inl e \<Rightarrow> Inl e))))"
  by (simp add: panic_steps_def checkGeofences_outcome notify_io anchor_alert_io
           split: awaited.splits sum.splits)







section \<open>The order of the alert-creation flow\<close>







section \<open>Best-effort side effects of the panic handler\<close>






section \<open>Insert row, then notify\<close>

text \<open>
  C3. In every trace of the panic handler the \<open>new_alert\<close> broadcast occurs only if
  the insert of the alert returned a row, and then after the insert; and for every
  request whose insert returns an error object the handler passes
  \<open>ApiError(500, 'Failed to create alert')\<close> to \<open>next\<close> and broadcasts nothing.
\<close>

theorem insert_then_notify:
  "(SocketBroadcast \<in> set (steps (fst (panic_handler w req)))
      \<longrightarrow> (\<exists>alert. alerts_insert w = Resolved (Inr alert))
          \<and> in_order [InsertAlert, SocketBroadcast] (steps (fst (panic_handler w req))))
   \<and> (tourists_single w = Resolved user \<and> alerts_insert w = Resolved (Inl err)
      \<longrightarrow> snd (panic_handler w req) = Next (ApiError 500 ''Failed to create alert'')
          \<and> SocketBroadcast \<notin> set (steps (fst (panic_handler w req))))"
  by (simp add: panic_handler_def panic_steps_steps panic_steps_outcome
        split: awaited.splits sum.splits)

theorem insert_then_notify_witness:
  "SocketBroadcast \<in> set (steps (fst (panic_handler demo_world demo_request)))
   \<and> alerts_insert demo_world = Resolved (Inr demo_alert)
   \<and> in_order [InsertAlert, SocketBroadcast] (steps (fst (panic_handler demo_world demo_request)))
   \<and> tourists_single demo_world_insert_error
       = Resolved (Inr \<lparr>t_name = ''Asha'', t_phone_number = ''100'', t_emergency_contact = None\<rparr>)
   \<and> alerts_insert demo_world_insert_error = Resolved (Inl ''insert failed'')
   \<and> snd (panic_handler demo_world_insert_error demo_request)
       = Next (ApiError 500 ''Failed to create alert'')
   \<and> SocketBroadcast \<notin> set (steps (fst (panic_handler demo_world_insert_error demo_request)))"
proof -
  have a: "SocketBroadcast \<in> set (steps (fst (panic_handler demo_world demo_request)))"
    "alerts_insert demo_world = Resolved (Inr demo_alert)"
    by (simp_all add: panic_handler_def panic_steps_steps demo_world_def)
  have b: "tourists_single demo_world_insert_error
       = Resolved (Inr \<lparr>t_name = ''Asha'', t_phone_number = ''100'', t_emergency_contact = None\<rparr>)"
    "alerts_insert demo_world_insert_error = Resolved (Inl ''insert failed'')"
    by (simp_all add: demo_world_insert_error_def demo_world_def)
  from insert_then_notify [of demo_world demo_request] a
    insert_then_notify [of demo_world_insert_error demo_request _ "''insert failed''"] b
  show ?thesis by blast
qed

section \<open>The anchoring service is mocked only in mock mode\<close>

text \<open>
  C7, as the claim states it, fails. With a chain endpoint configured and
  \<open>MOCK_BLOCKCHAIN\<close> not set to \<open>true\<close>, \<open>anchorToBlockchain\<close> sends the hash to
  the contract and returns a record of the network \<open>polygon-mumbai\<close>.
\<close>

theorem anchor_live_counterexample:
  "\<not> mock_mode demo_chain_live
   \<and> ChainSend (bytes32Hash demo_chain_live demo_data)
       \<in> set (trace (anchorToBlockchain demo_chain_live demo_data))
   \<and> map_sum id ba_network (outcome (anchorToBlockchain demo_chain_live demo_data))
       = Inr ''polygon-mumbai''"
  by (simp add: anchorToBlockchain_def anchor_live_def mock_mode_def truthy_def
        demo_chain_live_def demo_chain_def)

text \<open>
  C7, amended. In mock mode (\<open>MOCK_BLOCKCHAIN\<close> is \<open>true\<close>, or \<open>POLYGON_RPC_URL\<close> is
  unset or empty) \<open>anchorToBlockchain\<close> writes nothing to the chain and, when the insert
  of its tracking row resolves, returns the record with network \<open>mock\<close>, a transaction
  hash that starts with \<open>mock_tx_\<close>, and the hash \<open>0x\<close> followed by the SHA-256 of the
  JSON text of the event metadata, in which \<open>user_id\<close> and \<open>location_hash\<close> are first
  replaced by the SHA-256 of the value followed by \<open>ENCRYPTION_KEY\<close> (or left out
  when they are missing or empty); and \<open>deployContract\<close> returns \<open>0x\<close> followed by
  twenty random bytes in hexadecimal.
\<close>

theorem anchor_mock_mode:
  "(MOCK_BLOCKCHAIN w = Some ''true'' \<or> POLYGON_RPC_URL w = None \<or> POLYGON_RPC_URL w = Some []
      \<longrightarrow> list_all (\<lambda>e. \<not> chain_write e) (trace (anchorToBlockchain w d)))
   \<and> ((MOCK_BLOCKCHAIN w = Some ''true'' \<or> POLYGON_RPC_URL w = None \<or> POLYGON_RPC_URL w = Some [])
        \<and> anchors_insert w = Resolved ()
      \<longrightarrow> outcome (anchorToBlockchain w d)
            = Inr \<lparr>ba_hash =
                     ''0x'' @ sha256_hex w (JSON_stringify w
                       [(''alert_id'', ad_alert_id d),
                        (''user_id'',
                           (case ad_user_id d of
                              None \<Rightarrow> None
                            | Some u \<Rightarrow>
                                if u = [] then None
                                else Some (sha256_hex w
                                       (u @ (case ENCRYPTION_KEY w of
                                               None \<Rightarrow> ''undefined''
                                             | Some k \<Rightarrow> k))))),
                        (''type'', Some (ad_type d)),
                        (''severity'', ad_severity d),
                        (''timestamp'', Some (ad_timestamp d)),
                        (''location_hash'',
                           (case ad_location_hash d of
                              None \<Rightarrow> None
                            | Some h \<Rightarrow>
                                if h = [] then None
                                else Some (sha256_hex w
                                       (h @ (case ENCRYPTION_KEY w of
                                               None \<Rightarrow> ''undefined''
                                             | Some k \<Rightarrow> k)))))]),
                   ba_network = ''mock'',
                   ba_transactionHash = Some (''mock_tx_'' @ show_nat (now_mock_result w)),
                   ba_blockNumber = None\<rparr>
          \<and> prefix ''mock_tx_'' (''mock_tx_'' @ show_nat (now_mock_result w)))
   \<and> outcome (deployContract w) = Inr (''0x'' @ randomBytes_hex w)"
proof -
  have mode: "mock_mode w"
    if "MOCK_BLOCKCHAIN w = Some ''true'' \<or> POLYGON_RPC_URL w = None \<or> POLYGON_RPC_URL w = Some []"
    using that by (auto simp add: mock_mode_def truthy_def)
  have serial: "dataString w d =
      JSON_stringify w
                       [(''alert_id'', ad_alert_id d),
                        (''user_id'',
                           (case ad_user_id d of
                              None \<Rightarrow> None
                            | Some u \<Rightarrow>
                                if u = [] then None
                                else Some (sha256_hex w
                                       (u @ (case ENCRYPTION_KEY w of
                                               None \<Rightarrow> ''undefined''
                                             | Some k \<Rightarrow> k))))),
                        (''type'', Some (ad_type d)),
                        (''severity'', ad_severity d),
                        (''timestamp'', Some (ad_timestamp d)),
                        (''location_hash'',
                           (case ad_location_hash d of
                              None \<Rightarrow> None
                            | Some h \<Rightarrow>
                                if h = [] then None
                                else Some (sha256_hex w
                                       (h @ (case ENCRYPTION_KEY w of
                                               None \<Rightarrow> ''undefined''
                                             | Some k \<Rightarrow> k)))))]"
    by (simp add: dataString_def hashed_if_present_def hashPII_def truthy_def concat_text_def
          split: option.splits)
  have quiet: "list_all (\<lambda>e. \<not> chain_write e) (trace (anchorToBlockchain w d))"
    if "MOCK_BLOCKCHAIN w = Some ''true'' \<or> POLYGON_RPC_URL w = None \<or> POLYGON_RPC_URL w = Some []"
    by (rule anchor_in_mock_mode(1) [OF mode [OF that]])
  have result: "outcome (anchorToBlockchain w d)
            = Inr \<lparr>ba_hash = ''0x'' @ sha256_hex w (dataString w d),
                   ba_network = ''mock'',
                   ba_transactionHash = Some (''mock_tx_'' @ show_nat (now_mock_result w)),
                   ba_blockNumber = None\<rparr>"
    if "MOCK_BLOCKCHAIN w = Some ''true'' \<or> POLYGON_RPC_URL w = None \<or> POLYGON_RPC_URL w = Some []"
      and "anchors_insert w = Resolved ()"
    by (rule anchor_in_mock_mode(2) [OF mode [OF that(1)] that(2)])
  have starts: "prefix ''mock_tx_'' (''mock_tx_'' @ show_nat (now_mock_result w))"
    by simp
  have deploy: "outcome (deployContract w) = Inr (''0x'' @ randomBytes_hex w)"
    by simp
  from quiet result starts deploy show ?thesis
    unfolding serial by blast
qed

lemma demo_chain_hash:
  "''0x'' @ sha256_hex demo_chain (JSON_stringify demo_chain
       [(''alert_id'', Some ''a1''), (''user_id'', Some (sha256_hex demo_chain ''u1key'')),
        (''type'', Some ''panic''), (''severity'', Some ''critical''),
        (''timestamp'', Some ''t0''),
        (''location_hash'', Some (sha256_hex demo_chain ''28,77key''))])
   = ''0xsha256<alert_id:a1;user_id:sha256<u1key>;type:panic;severity:critical;timestamp:t0;location_hash:sha256<28,77key>;>''"
  by (simp add: demo_chain_def demo_sha256_def demo_stringify_def concat_text_def)

theorem anchor_mock_mode_witness:
  "MOCK_BLOCKCHAIN demo_chain = Some ''true'' \<and> anchors_insert demo_chain = Resolved ()
   \<and> list_all (\<lambda>e. \<not> chain_write e) (trace (anchorToBlockchain demo_chain demo_data))
   \<and> outcome (anchorToBlockchain demo_chain demo_data)
       = Inr \<lparr>ba_hash = ''0xsha256<alert_id:a1;user_id:sha256<u1key>;type:panic;severity:critical;timestamp:t0;location_hash:sha256<28,77key>;>'',
              ba_network = ''mock'',
              ba_transactionHash = Some ''mock_tx_8'',
              ba_blockNumber = None\<rparr>
   \<and> outcome (deployContract demo_chain) = Inr ''0x00112233445566778899aabbccddeeff00112233''"
proof -
  have h: "MOCK_BLOCKCHAIN demo_chain = Some ''true''" "anchors_insert demo_chain = Resolved ()"
    by (simp_all add: demo_chain_def)
  have env: "ENCRYPTION_KEY demo_chain = Some ''key''" "now_mock_result demo_chain = 8"
    "randomBytes_hex demo_chain = ''00112233445566778899aabbccddeeff00112233''"
    by (simp_all add: demo_chain_def)
  have d: "ad_alert_id demo_data = Some ''a1''" "ad_user_id demo_data = Some ''u1''"
    "ad_type demo_data = ''panic''" "ad_severity demo_data = Some ''critical''"
    "ad_timestamp demo_data = ''t0''" "ad_location_hash demo_data = Some ''28,77''"
    by (simp_all add: demo_data_def)
  have eight: "show_nat 8 = ''8''"
    by (simp add: show_nat_digit)
  from anchor_mock_mode [of demo_chain demo_data] h
  have quiet: "list_all (\<lambda>e. \<not> chain_write e) (trace (anchorToBlockchain demo_chain demo_data))"
    and out: "outcome (anchorToBlockchain demo_chain demo_data)
       = Inr \<lparr>ba_hash = ''0x'' @ sha256_hex demo_chain (JSON_stringify demo_chain
                 [(''alert_id'', Some ''a1''), (''user_id'', Some (sha256_hex demo_chain ''u1key'')),
                  (''type'', Some ''panic''), (''severity'', Some ''critical''),
                  (''timestamp'', Some ''t0''),
                  (''location_hash'', Some (sha256_hex demo_chain ''28,77key''))]),
              ba_network = ''mock'',
              ba_transactionHash = Some ''mock_tx_8'',
              ba_blockNumber = None\<rparr>"
    and dc: "outcome (deployContract demo_chain) = Inr ''0x00112233445566778899aabbccddeeff00112233''"
    by (simp_all add: env d eight)
  from h quiet out dc show ?thesis
    unfolding demo_chain_hash by blast
qed

section \<open>What the geofence service delegates to the database\<close>

lemma demo_polygon_parsed:
  "parsePolygonCoordinates whole_Number ''POLYGON((2 1, 4 3, 2 1))''
     = [(Some 1, Some 2), (Some 3, Some 4)]"
proof -
  have strip: "replace_js ''))'' [] (replace_js ''POLYGON(('' [] ''POLYGON((2 1, 4 3, 2 1))'')
                 = ''2 1, 4 3, 2 1''"
    by simp
  have pieces: "split_js '', '' ''2 1, 4 3, 2 1'' = [''2 1'', ''4 3'', ''2 1'']"
    by simp
  have trims: "trim_js ''2 1'' = ''2 1''" "trim_js ''4 3'' = ''4 3''"
    by (simp_all add: trim_js_def is_whitespace_def)
  have words: "split_js '' '' ''2 1'' = [''2'', ''1'']" "split_js '' '' ''4 3'' = [''4'', ''3'']"
    by simp_all
  have coords: "parse_coord whole_Number ''2 1'' = (Some 1, Some 2)"
    "parse_coord whole_Number ''4 3'' = (Some 3, Some 4)"
    by (simp_all add: parse_coord_def trims words whole_Number_values)
  show ?thesis
    unfolding parsePolygonCoordinates_def strip pieces by (simp add: coords)
qed

text \<open>
  C4, as the claim states it, fails for the polygon coordinates. \<open>getActiveGeofences\<close>
  issues a plain \<open>select\<close>, which is answered with the geometry text, and the
  coordinates it returns are computed from that text in the application, by
  \<open>parsePolygonCoordinates\<close>.
\<close>

theorem polygon_parsing_counterexample:
  "trace (getActiveGeofences demo_geo whole_Number)
     = [Db ''geofences'' ''select'' [(''is_active'', Some ''true'')]]
   \<and> map_sum id (map gf_geometry) (geofences_select_rows demo_geo)
     = Inr [''POLYGON((2 1, 4 3, 2 1))'']
   \<and> map_sum id (map view_coordinates) (outcome (getActiveGeofences demo_geo whole_Number))
     = Inr [[(Some 1, Some 2), (Some 3, Some 4)]]"
  by (simp add: getActiveGeofences_def geofences_select_rows_def demo_geo_def view_of_row_def
        demo_polygon_parsed)

text \<open>
  C4, amended. Point-in-polygon membership and radius search are delegated to the
  database. For every latitude and longitude, the only call \<open>checkGeofences\<close> makes is
  the database function \<open>check_point_in_geofences\<close> with that point; when the call
  returns rows, the result is these rows mapped field by field (\<open>geofence_id\<close> to
  \<open>id\<close>, and \<open>name\<close>, \<open>type\<close>, \<open>description\<close>); and the result depends on the point
  only through the answer of the database. For every permitted radius search with a
  centre, the only call of the handler is the database function \<open>get_nearby_tourists\<close>
  with the centre and the radius (1000 when none is given); when it returns rows, the
  response carries them field by field, the distance as the database computed it. The
  polygon coordinates are not delegated: \<open>getActiveGeofences\<close> computes them from the
  geometry text of each row with \<open>parsePolygonCoordinates\<close>.
\<close>

theorem checkGeofences_passthrough:
  "unlogged (trace (checkGeofences db lat lng))
     = [Rpc ''check_point_in_geofences'' [(''point_lat'', lat), (''point_lng'', lng)]]
   \<and> (check_point_in_geofences db lat lng = Resolved (Inr (Some rows))
        \<longrightarrow> outcome (checkGeofences db lat lng) = Inr (map violation_of_hit rows))
   \<and> gv_id (violation_of_hit h) = hit_geofence_id h
   \<and> gv_name (violation_of_hit h) = hit_name h
   \<and> gv_type (violation_of_hit h) = hit_type h
   \<and> gv_description (violation_of_hit h) = hit_description h
   \<and> (check_point_in_geofences db lat lng = check_point_in_geofences db' lat' lng'
        \<longrightarrow> outcome (checkGeofences db lat lng) = outcome (checkGeofences db' lat' lng'))
   \<and> (geofences_select db = Resolved (Inr (Some geofences))
        \<longrightarrow> outcome (getActiveGeofences db Number)
              = Inr (map (view_of_row Number) geofences))
   \<and> view_coordinates (view_of_row Number g) = parsePolygonCoordinates Number (gf_geometry g)
   \<and> ((nq_role nreq = ''police'' \<or> nq_role nreq = ''admin'')
        \<and> nq_latitude nreq = Some la \<and> la \<noteq> [] \<and> nq_longitude nreq = Some lo \<and> lo \<noteq> []
        \<longrightarrow> unlogged (fst (nearby_handler ndb Number nreq))
              = [Rpc ''get_nearby_tourists''
                   [(''center_lat'', Number la), (''center_lng'', Number lo),
                    (''radius_meters'', (case nq_radius nreq of
                                           None \<Rightarrow> 1000
                                         | Some r \<Rightarrow> Number r))]]
            \<and> (get_nearby_tourists ndb (Number la) (Number lo)
                   (case nq_radius nreq of None \<Rightarrow> 1000 | Some r \<Rightarrow> Number r)
                  = Resolved (Inr (Some found))
                \<longrightarrow> snd (nearby_handler ndb Number nreq)
                      = Responded 200
                          \<lparr>nb_tourists = map tourist_of_row found,
                           nb_center_latitude = Number la,
                           nb_center_longitude = Number lo,
                           nb_searchRadius = (case nq_radius nreq of
                                                None \<Rightarrow> 1000
                                              | Some r \<Rightarrow> Number r)\<rparr>))
   \<and> tourist_of_row t
       = \<lparr>nt_id = nr_user_id t, nt_name = nr_name t, nt_latitude = nr_latitude t,
          nt_longitude = nr_longitude t, nt_distance = nr_distance t,
          nt_lastSeen = nr_last_location_time t, nt_status = nr_status t\<rparr>"
proof -
  let ?radius = "case nq_radius nreq of None \<Rightarrow> 1000 | Some r \<Rightarrow> Number r"
  have call: "unlogged (trace (checkGeofences db lat lng))
     = [Rpc ''check_point_in_geofences'' [(''point_lat'', lat), (''point_lng'', lng)]]"
    by (simp add: checkGeofences_trace split: awaited.splits sum.splits)
  have mapped: "outcome (checkGeofences db lat lng) = Inr (map violation_of_hit rows)"
    if "check_point_in_geofences db lat lng = Resolved (Inr (Some rows))"
    by (simp add: checkGeofences_outcome that)
  have fields: "gv_id (violation_of_hit h) = hit_geofence_id h"
    "gv_name (violation_of_hit h) = hit_name h"
    "gv_type (violation_of_hit h) = hit_type h"
    "gv_description (violation_of_hit h) = hit_description h"
    by (simp_all add: violation_of_hit_def)
  have same: "outcome (checkGeofences db lat lng) = outcome (checkGeofences db' lat' lng')"
    if "check_point_in_geofences db lat lng = check_point_in_geofences db' lat' lng'"
    by (simp add: checkGeofences_outcome that)
  have views: "outcome (getActiveGeofences db Number) = Inr (map (view_of_row Number) geofences)"
    if "geofences_select db = Resolved (Inr (Some geofences))"
    by (simp add: getActiveGeofences_def that)
  have coords: "view_coordinates (view_of_row Number g)
                  = parsePolygonCoordinates Number (gf_geometry g)"
    by (simp add: view_of_row_def)
  have search: "unlogged (fst (nearby_handler ndb Number nreq))
              = [Rpc ''get_nearby_tourists''
                   [(''center_lat'', Number la), (''center_lng'', Number lo),
                    (''radius_meters'', ?radius)]]"
    if "nq_role nreq = ''police'' \<or> nq_role nreq = ''admin''"
      and "nq_latitude nreq = Some la" "la \<noteq> []" "nq_longitude nreq = Some lo" "lo \<noteq> []"
    using that
    by (auto simp add: nearby_handler_def nearby_steps_def search_radius_def truthy_def
          concat_text_def split: awaited.splits sum.splits)
  have found: "snd (nearby_handler ndb Number nreq)
                      = Responded 200
                          \<lparr>nb_tourists = map tourist_of_row found,
                           nb_center_latitude = Number la,
                           nb_center_longitude = Number lo,
                           nb_searchRadius = ?radius\<rparr>"
    if "nq_role nreq = ''police'' \<or> nq_role nreq = ''admin''"
      and "nq_latitude nreq = Some la" "la \<noteq> []" "nq_longitude nreq = Some lo" "lo \<noteq> []"
      and "get_nearby_tourists ndb (Number la) (Number lo) ?radius = Resolved (Inr (Some found))"
    using that
    by (auto simp add: nearby_handler_def nearby_steps_def search_radius_def truthy_def
          concat_text_def)
  have row: "tourist_of_row t
       = \<lparr>nt_id = nr_user_id t, nt_name = nr_name t, nt_latitude = nr_latitude t,
          nt_longitude = nr_longitude t, nt_distance = nr_distance t,
          nt_lastSeen = nr_last_location_time t, nt_status = nr_status t\<rparr>"
    by (simp add: tourist_of_row_def)
  from call mapped fields same views coords search found row show ?thesis
    by blast
qed

theorem checkGeofences_passthrough_witness:
  "check_point_in_geofences demo_geo 28 77 = Resolved (Inr (Some [demo_hit]))
   \<and> check_point_in_geofences demo_geo 28 77 = check_point_in_geofences demo_geo 1 2
   \<and> outcome (checkGeofences demo_geo 28 77) = Inr (map violation_of_hit [demo_hit])
   \<and> outcome (checkGeofences demo_geo 28 77) = outcome (checkGeofences demo_geo 1 2)
   \<and> unlogged (trace (checkGeofences demo_geo 28 77))
       = [Rpc ''check_point_in_geofences'' [(''point_lat'', 28), (''point_lng'', 77)]]
   \<and> nq_role demo_nearby_request = ''police''
   \<and> nq_latitude demo_nearby_request = Some ''1''
   \<and> nq_longitude demo_nearby_request = Some ''2''
   \<and> get_nearby_tourists demo_nearby_db 1 2 1000 = Resolved (Inr (Some [demo_nearby_row]))
   \<and> unlogged (fst (nearby_handler demo_nearby_db whole_Number demo_nearby_request))
       = [Rpc ''get_nearby_tourists''
            [(''center_lat'', 1), (''center_lng'', 2), (''radius_meters'', 1000)]]
   \<and> snd (nearby_handler demo_nearby_db whole_Number demo_nearby_request)
       = Responded 200
           \<lparr>nb_tourists = map tourist_of_row [demo_nearby_row],
            nb_center_latitude = 1, nb_center_longitude = 2, nb_searchRadius = 1000\<rparr>"
proof -
  have h: "check_point_in_geofences demo_geo 28 77 = Resolved (Inr (Some [demo_hit]))"
    "check_point_in_geofences demo_geo 28 77 = check_point_in_geofences demo_geo 1 2"
    by (simp_all add: demo_geo_def)
  have n: "nq_role demo_nearby_request = ''police''"
    "nq_latitude demo_nearby_request = Some ''1''"
    "nq_longitude demo_nearby_request = Some ''2''"
    "nq_radius demo_nearby_request = None"
    by (simp_all add: demo_nearby_request_def)
  have d: "get_nearby_tourists demo_nearby_db 1 2 1000 = Resolved (Inr (Some [demo_nearby_row]))"
    by (simp add: demo_nearby_db_def)
  have one: "''1'' \<noteq> ([] :: string)" "''2'' \<noteq> ([] :: string)"
    by simp_all
  note t = checkGeofences_passthrough
    [where db = demo_geo and lat = 28 and lng = 77 and rows = "[demo_hit]" and h = demo_hit
       and db' = demo_geo and lat' = 1 and lng' = 2 and Number = whole_Number
       and nreq = demo_nearby_request and la = "''1''" and lo = "''2''"
       and ndb = demo_nearby_db and found = "[demo_nearby_row]"]
  from t h
  have a: "outcome (checkGeofences demo_geo 28 77) = Inr (map violation_of_hit [demo_hit])"
    and b: "outcome (checkGeofences demo_geo 28 77) = outcome (checkGeofences demo_geo 1 2)"
    and c: "unlogged (trace (checkGeofences demo_geo 28 77))
       = [Rpc ''check_point_in_geofences'' [(''point_lat'', 28), (''point_lng'', 77)]]"
    by blast+
  from t n one have search: "unlogged (fst (nearby_handler demo_nearby_db whole_Number demo_nearby_request))
       = [Rpc ''get_nearby_tourists''
            [(''center_lat'', 1), (''center_lng'', 2), (''radius_meters'', 1000)]]"
    by (simp add: whole_Number_values)
  from t n one d have reply: "snd (nearby_handler demo_nearby_db whole_Number demo_nearby_request)
       = Responded 200
           \<lparr>nb_tourists = map tourist_of_row [demo_nearby_row],
            nb_center_latitude = 1, nb_center_longitude = 2, nb_searchRadius = 1000\<rparr>"
    by (simp add: whole_Number_values)
  from h a b c n d search reply show ?thesis by blast
qed

section \<open>A failing geofence check fails no request\<close>

lemma no_geofences_fields [simp]:
  "check_point_in_geofences (db_geo (no_geofences w)) lat lng = Resolved (Inr (Some []))"
  "chain (no_geofences w) = chain w"
  "tourists_single (no_geofences w) = tourists_single w"
  "alerts_insert (no_geofences w) = alerts_insert w"
  "locations_insert (no_geofences w) = locations_insert w"
  "alerts_update (no_geofences w) = alerts_update w"
  "sendPushNotification (no_geofences w) = sendPushNotification w"
  "detectAnomalies (no_geofences w) = detectAnomalies w"
  "number_toString (no_geofences w) = number_toString w"
  by (simp_all add: no_geofences_def)

lemma no_geofences_parts [simp]:
  "notify_authorities (no_geofences w) req = notify_authorities w req"
  "anchor_alert (no_geofences w) req alert = anchor_alert w req alert"
  "detect_anomaly (no_geofences w) = detect_anomaly w"
  "handle_violations (no_geofences w) ureq gv = handle_violations w ureq gv"
  by (simp_all add: notify_authorities_def anchor_alert_def panic_anchor_data_def
        detect_anomaly_def handle_violations_def)

lemma checkGeofences_failure:
  assumes "geofence_failure (check_point_in_geofences db lat lng)"
  shows "outcome (checkGeofences db lat lng) = Inr []"
    and "unlogged (trace (checkGeofences db lat lng))
           = [Rpc ''check_point_in_geofences'' [(''point_lat'', lat), (''point_lng'', lng)]]"
  using assms
  by (simp_all add: checkGeofences_outcome checkGeofences_trace geofence_failure_def
        split: awaited.splits sum.splits)

lemma checkGeofences_none:
  "outcome (checkGeofences (db_geo (no_geofences w)) lat lng) = Inr []"
  "trace (checkGeofences (db_geo (no_geofences w)) lat lng)
     = [Rpc ''check_point_in_geofences'' [(''point_lat'', lat), (''point_lng'', lng)]]"
  by (simp_all add: checkGeofences_outcome checkGeofences_trace)

lemma detect_anomaly_outcome:
  "outcome (detect_anomaly w) = Inr (case detectAnomalies w of Resolved a \<Rightarrow> a | Rejected e \<Rightarrow> None)"
  by (simp add: detect_anomaly_def split: awaited.splits)

lemma handle_violations_none [simp]: "handle_violations w ureq [] = ret ()"
  by (simp add: handle_violations_def)

lemma panic_without_geofences:
  assumes "geofence_failure (check_point_in_geofences (db_geo w) (pq_latitude req) (pq_longitude req))"
  shows "outcome (panic_steps w req) = outcome (panic_steps (no_geofences w) req)"
    and "unlogged (trace (panic_steps w req)) = unlogged (trace (panic_steps (no_geofences w) req))"
  using checkGeofences_failure [OF assms]
  by (simp_all add: panic_steps_def checkGeofences_none notify_io anchor_alert_io
        split: awaited.splits sum.splits)

lemma update_without_geofences:
  assumes "geofence_failure (check_point_in_geofences (db_geo w) (uq_latitude ureq) (uq_longitude ureq))"
  shows "outcome (update_steps w ureq) = outcome (update_steps (no_geofences w) ureq)"
    and "unlogged (trace (update_steps w ureq)) = unlogged (trace (update_steps (no_geofences w) ureq))"
  using checkGeofences_failure [OF assms]
  by (simp_all add: update_steps_def checkGeofences_none detect_anomaly_outcome
        split: awaited.splits sum.splits option.splits)

text \<open>
  C9. \<open>checkGeofences\<close> never throws; whenever the database call returns an error
  object or rejects, it returns the empty list; and both of its callers, the panic-alert
  handler and the location-update handler, then answer the request exactly as they do
  when the database finds the point in no geofence, with the same effects apart from
  log lines.
\<close>

theorem checkGeofences_never_fails:
  "(\<exists>vs. outcome (checkGeofences db lat lng) = Inr vs)
   \<and> (geofence_failure (check_point_in_geofences db lat lng)
        \<longrightarrow> outcome (checkGeofences db lat lng) = Inr [])
   \<and> (geofence_failure (check_point_in_geofences (db_geo w) (pq_latitude req) (pq_longitude req))
        \<longrightarrow> snd (panic_handler w req) = snd (panic_handler (no_geofences w) req)
            \<and> unlogged (fst (panic_handler w req)) = unlogged (fst (panic_handler (no_geofences w) req)))
   \<and> (geofence_failure (check_point_in_geofences (db_geo w) (uq_latitude ureq) (uq_longitude ureq))
        \<longrightarrow> snd (update_handler w ureq) = snd (update_handler (no_geofences w) ureq)
            \<and> unlogged (fst (update_handler w ureq)) = unlogged (fst (update_handler (no_geofences w) ureq)))"
proof -
  have "\<exists>vs. outcome (checkGeofences db lat lng) = Inr vs"
    by (simp add: checkGeofences_outcome)
  moreover have "outcome (checkGeofences db lat lng) = Inr []"
    if "geofence_failure (check_point_in_geofences db lat lng)"
    by (rule checkGeofences_failure(1) [OF that])
  moreover have "snd (panic_handler w req) = snd (panic_handler (no_geofences w) req)
            \<and> unlogged (fst (panic_handler w req)) = unlogged (fst (panic_handler (no_geofences w) req))"
    if "geofence_failure (check_point_in_geofences (db_geo w) (pq_latitude req) (pq_longitude req))"
    using panic_without_geofences [OF that] by (simp add: panic_handler_def)
  moreover have "snd (update_handler w ureq) = snd (update_handler (no_geofences w) ureq)
            \<and> unlogged (fst (update_handler w ureq)) = unlogged (fst (update_handler (no_geofences w) ureq))"
    if "geofence_failure (check_point_in_geofences (db_geo w) (uq_latitude ureq) (uq_longitude ureq))"
    using update_without_geofences [OF that] by (simp add: update_handler_def)
  ultimately show ?thesis by blast
qed

theorem checkGeofences_never_fails_witness:
  "geofence_failure (check_point_in_geofences (db_geo demo_world_geofence_error) 28 77)
   \<and> outcome (checkGeofences (db_geo demo_world_geofence_error) 28 77) = Inr []
   \<and> snd (panic_handler demo_world_geofence_error demo_request)
       = Responded 201 (panic_reply demo_request demo_alert [])
   \<and> snd (panic_handler demo_world_geofence_error demo_request)
       = snd (panic_handler (no_geofences demo_world_geofence_error) demo_request)
   \<and> unlogged (fst (panic_handler demo_world_geofence_error demo_request))
       = unlogged (fst (panic_handler (no_geofences demo_world_geofence_error) demo_request))
   \<and> snd (update_handler demo_world_geofence_error demo_update)
       = Responded 200 (update_reply demo_location [] None)
   \<and> snd (update_handler demo_world_geofence_error demo_update)
       = snd (update_handler (no_geofences demo_world_geofence_error) demo_update)"
proof -
  have f: "geofence_failure (check_point_in_geofences (db_geo demo_world_geofence_error) 28 77)"
    by (simp add: demo_world_geofence_error_def geofence_failure_def)
  have p: "pq_latitude demo_request = 28" "pq_longitude demo_request = 77"
    "uq_latitude demo_update = 28" "uq_longitude demo_update = 77"
    by (simp_all add: demo_request_def demo_update_def)
  have r: "snd (panic_handler demo_world_geofence_error demo_request)
       = Responded 201 (panic_reply demo_request demo_alert [])"
    by (simp add: panic_handler_def panic_steps_outcome checkGeofences_outcome
          demo_world_geofence_error_def demo_world_def)
  have u: "snd (update_handler demo_world_geofence_error demo_update)
       = Responded 200 (update_reply demo_location [] None)"
    by (simp add: update_handler_def update_steps_def checkGeofences_outcome detect_anomaly_outcome
          demo_world_geofence_error_def demo_world_def)
  from checkGeofences_never_fails
    [of "db_geo demo_world_geofence_error" 28 77 demo_world_geofence_error demo_request demo_update]
    f p r u
  show ?thesis by simp
qed


section \<open>The chat service never throws\<close>

lemma storeConversation_io: "outcome (storeConversation w cid m a) = Inr ()"
  by (simp add: storeConversation_def split: awaited.splits)

lemma chat_steps_outcome:
  "outcome (chat_steps w g request cid) =
     (case openai w of
        Some (Rejected e) \<Rightarrow> Inl e
      | Some (Resolved choices) \<Rightarrow>
          Inr \<lparr>rs_message = completion_text choices,
               rs_conversationId = cid,
               rs_context = RagContext (case rq_context request of
                                          None \<Rightarrow> None
                                        | Some c \<Rightarrow> ctx_location c)
                              (calculateSafetyScore (searchSimilarDocuments [] None))
                              (extractNearbyPlaces (searchSimilarDocuments [] None)),
               rs_sources = map source_of (searchSimilarDocuments [] None),
               rs_confidence = calculateConfidence (searchSimilarDocuments [] None) (completion_text choices),
               rs_language = language_or_en request,
               rs_processingTime = int (now_end w) - int (now_start w)\<rparr>
      | None \<Rightarrow>
          Inr \<lparr>rs_message = no_client_response (rq_message request),
               rs_conversationId = cid,
               rs_context = RagContext (case rq_context request of
                                          None \<Rightarrow> None
                                        | Some c \<Rightarrow> ctx_location c)
                              (calculateSafetyScore (searchSimilarDocuments [] None))
                              (extractNearbyPlaces (searchSimilarDocuments [] None)),
               rs_sources = map source_of (searchSimilarDocuments [] None),
               rs_confidence = calculateConfidence (searchSimilarDocuments [] None)
                                 (no_client_response (rq_message request)),
               rs_language = language_or_en request,
               rs_processingTime = int (now_end w) - int (now_start w)\<rparr>)"
  by (simp add: chat_steps_def storeConversation_io searchSimilarDocuments_def Let_def
        split: option.splits awaited.splits)

lemma generateChatResponse_outcome:
  "outcome (generateChatResponse w g request) =
     (case outcome (chat_steps w (snd (chooseConversationId w g request)) request
                      (fst (chooseConversationId w g request))) of
        Inr r \<Rightarrow> Inr r
      | Inl e \<Rightarrow> Inr (fallback_response w request (fst (chooseConversationId w g request))))"
  by (simp add: generateChatResponse_def case_prod_beta split: sum.splits)

lemma storeConversation_trace:
  "conversations_insert w = Rejected e
     \<Longrightarrow> Log ''warn'' ''Failed to store conversation:'' \<in> set (trace (storeConversation w cid m a))"
  by (simp add: storeConversation_def)

lemma chat_steps_store_trace:
  "openai w = None \<Longrightarrow>
   trace (chat_steps w g request cid) =
     Log ''warn'' ''OpenAI API key not configured, using fallback response'' #
     trace (storeConversation w cid (rq_message request) (no_client_response (rq_message request)))"
  by (simp add: chat_steps_def storeConversation_io Let_def)

lemma generateChatResponse_trace:
  "outcome (chat_steps w (snd (chooseConversationId w g request)) request
              (fst (chooseConversationId w g request))) = Inr r
   \<Longrightarrow> trace (generateChatResponse w g request)
       = trace (chat_steps w (snd (chooseConversationId w g request)) request
                  (fst (chooseConversationId w g request)))"
  by (simp add: generateChatResponse_def case_prod_beta)

lemma fresh_id:
  "fst (generateConversationId w g)
     = ''conv_'' @ show_nat (now_id w) @ ''_'' @ take 13 (drop 2 (toString36 w (draws g (used g))))"
  by (simp add: generateConversationId_def Math_random_def)

lemma demo_fresh_id:
  "fst (generateConversationId demo_chat_world (constant_source (1 / 2))) = ''conv_4_abcdefghijklm''"
  by (simp add: fresh_id demo_chat_world_def show_nat_digit)

lemma store_irrelevant:
  "chooseConversationId (w\<lparr>conversations_insert := a\<rparr>) g request = chooseConversationId w g request"
  "outcome (chat_steps (w\<lparr>conversations_insert := a\<rparr>) g' request cid)
     = outcome (chat_steps w g' request cid)"
  "fallback_response (w\<lparr>conversations_insert := a\<rparr>) request cid = fallback_response w request cid"
  by (simp_all add: chooseConversationId_def generateConversationId_def chat_steps_outcome
        fallback_response_def split: option.splits awaited.splits)

text \<open>
  C10, as the claim states it, fails. Without a completion client and with a database
  that rejects the insert of the conversation, a step of \<open>generateChatResponse\<close> fails,
  and the failure is logged; the response is nevertheless the normal one, with its one
  source and a confidence above 0, not the fallback. And a request whose conversation id
  is the empty string is answered under a freshly generated id.
\<close>

theorem chat_fallback_counterexample:
  "conversations_insert demo_chat_world_store_fails = Rejected (Thrown ''database down'')
   \<and> Log ''warn'' ''Failed to store conversation:''
       \<in> set (trace (generateChatResponse demo_chat_world_store_fails (constant_source (1 / 2))
                        demo_chat_request))
   \<and> map_sum id (map src_id \<circ> rs_sources)
        (outcome (generateChatResponse demo_chat_world_store_fails (constant_source (1 / 2))
                    demo_chat_request))
       = Inr [''doc1'']
   \<and> map_sum id (\<lambda>r. rs_confidence r > 0 \<and> rs_context r \<noteq> EmptyContext)
        (outcome (generateChatResponse demo_chat_world_store_fails (constant_source (1 / 2))
                    demo_chat_request))
       = Inr True
   \<and> map_sum id rs_message
        (outcome (generateChatResponse demo_chat_world_store_fails (constant_source (1 / 2))
                    demo_chat_request))
       = Inr (no_client_response ''Is the old fort safe?'')
   \<and> map_sum id rs_conversationId
        (outcome (generateChatResponse demo_chat_world (constant_source (1 / 2))
                    (demo_chat_request\<lparr>rq_conversationId := Some []\<rparr>)))
       = Inr ''conv_4_abcdefghijklm''"
proof -
  let ?w = demo_chat_world_store_fails
  let ?g = "constant_source (1 / 2)"
  have w: "openai ?w = None" "conversations_insert ?w = Rejected (Thrown ''database down'')"
    by (simp_all add: demo_chat_world_store_fails_def)
  have m: "rq_message demo_chat_request = ''Is the old fort safe?''"
    by (simp add: demo_chat_request_def)
  obtain r where body: "outcome (chat_steps ?w (snd (chooseConversationId ?w ?g demo_chat_request))
                  demo_chat_request (fst (chooseConversationId ?w ?g demo_chat_request))) = Inr r"
    by (simp add: chat_steps_outcome w)
  have logged: "Log ''warn'' ''Failed to store conversation:''
       \<in> set (trace (generateChatResponse ?w ?g demo_chat_request))"
    unfolding generateChatResponse_trace [OF body] chat_steps_store_trace [OF w(1)]
    using storeConversation_trace [OF w(2)] by simp
  have out: "outcome (generateChatResponse ?w ?g demo_chat_request)
      = outcome (chat_steps ?w (snd (chooseConversationId ?w ?g demo_chat_request))
                  demo_chat_request (fst (chooseConversationId ?w ?g demo_chat_request)))"
    using body by (simp add: generateChatResponse_outcome)
  have long: "length (no_client_response ''Is the old fort safe?'') > 50"
    by (simp add: no_client_response_def)
  have conf: "calculateConfidence (searchSimilarDocuments [] None)
                (no_client_response ''Is the old fort safe?'') > 0"
    using long by (simp add: calculateConfidence_def searchSimilarDocuments_def Let_def)
  have srcs: "map (src_id \<circ> source_of) (searchSimilarDocuments [] None) = [''doc1'']"
    by (simp add: searchSimilarDocuments_def source_of_def)
  have normal: "map_sum id (map src_id \<circ> rs_sources)
        (outcome (generateChatResponse ?w ?g demo_chat_request)) = Inr [''doc1'']"
    "map_sum id (\<lambda>r. rs_confidence r > 0 \<and> rs_context r \<noteq> EmptyContext)
        (outcome (generateChatResponse ?w ?g demo_chat_request)) = Inr True"
    "map_sum id rs_message (outcome (generateChatResponse ?w ?g demo_chat_request))
       = Inr (no_client_response ''Is the old fort safe?'')"
    unfolding out by (simp_all add: chat_steps_outcome w m conf srcs)
  have "openai demo_chat_world = Some (Rejected (Thrown ''429 rate limit''))"
    by (simp add: demo_chat_world_def)
  then have "outcome (generateChatResponse demo_chat_world ?g
                    (demo_chat_request\<lparr>rq_conversationId := Some []\<rparr>))
      = Inr (fallback_response demo_chat_world (demo_chat_request\<lparr>rq_conversationId := Some []\<rparr>)
               (fst (generateConversationId demo_chat_world ?g)))"
    by (simp add: generateChatResponse_outcome chat_steps_outcome chooseConversationId_def)
  then have empty: "map_sum id rs_conversationId
        (outcome (generateChatResponse demo_chat_world ?g
                    (demo_chat_request\<lparr>rq_conversationId := Some []\<rparr>)))
       = Inr ''conv_4_abcdefghijklm''"
    by (simp add: fallback_response_def demo_fresh_id)
  from w(2) logged normal empty show ?thesis by blast
qed

text \<open>
  C10, amended. \<open>generateChatResponse\<close> never throws: for every request it returns a
  response. The one step of its \<open>try\<close> that can throw is the completion call; when it
  rejects, the response is the fixed fallback: the apology text, confidence 0, no
  sources, an empty context, the conversation id chosen at entry (the request's id when
  it is a non-empty string, otherwise a freshly generated one) and the request's
  language, \<open>en\<close> when it is missing or empty. A failure to store the conversation is
  caught where it happens and leaves the response as it is without the failure.
\<close>

theorem generateChatResponse_never_throws:
  "(\<exists>r. outcome (generateChatResponse w g request) = Inr r)
   \<and> (openai w = Some (Rejected e)
        \<longrightarrow> outcome (generateChatResponse w g request)
              = Inr \<lparr>rs_message = ''I apologize, but I am unable to process your request at this time. ''
                                    @ ''Please try again later or contact support for assistance.'',
                     rs_conversationId =
                       (case rq_conversationId request of
                          None \<Rightarrow> ''conv_'' @ show_nat (now_id w) @ ''_''
                                    @ take 13 (drop 2 (toString36 w (draws g (used g))))
                        | Some c \<Rightarrow>
                            if c = [] then ''conv_'' @ show_nat (now_id w) @ ''_''
                                            @ take 13 (drop 2 (toString36 w (draws g (used g))))
                            else c),
                     rs_context = EmptyContext, rs_sources = [], rs_confidence = 0,
                     rs_language =
                       (case rq_language request of
                          None \<Rightarrow> ''en''
                        | Some l \<Rightarrow> if l = [] then ''en'' else l),
                     rs_processingTime = int (now_end w) - int (now_start w)\<rparr>)
   \<and> ((\<exists>x. outcome (chat_steps w (snd (chooseConversationId w g request)) request
                       (fst (chooseConversationId w g request))) = Inl x)
        = (\<exists>x. openai w = Some (Rejected x)))
   \<and> outcome (generateChatResponse w g request)
       = outcome (generateChatResponse (w\<lparr>conversations_insert := Resolved ()\<rparr>) g request)"
proof -
  let ?fresh = "''conv_'' @ show_nat (now_id w) @ ''_''
                  @ take 13 (drop 2 (toString36 w (draws g (used g))))"
  have total: "\<exists>r. outcome (generateChatResponse w g request) = Inr r"
    by (simp add: generateChatResponse_outcome split: sum.splits)
  have chosen: "fst (chooseConversationId w g request)
      = (case rq_conversationId request of
           None \<Rightarrow> ?fresh
         | Some c \<Rightarrow> if c = [] then ?fresh else c)"
    by (simp add: chooseConversationId_def fresh_id split: option.splits)
  have lang: "language_or_en request
      = (case rq_language request of None \<Rightarrow> ''en'' | Some l \<Rightarrow> if l = [] then ''en'' else l)"
    by (simp add: language_or_en_def)
  have fb: "outcome (generateChatResponse w g request)
              = Inr (fallback_response w request (fst (chooseConversationId w g request)))"
    if "openai w = Some (Rejected e)"
    by (simp add: generateChatResponse_outcome chat_steps_outcome that)
  have only: "(\<exists>x. outcome (chat_steps w g' request cid) = Inl x) = (\<exists>x. openai w = Some (Rejected x))"
    for g' cid
    by (simp add: chat_steps_outcome split: option.splits awaited.splits)
  have store: "outcome (generateChatResponse w g request)
       = outcome (generateChatResponse (w\<lparr>conversations_insert := Resolved ()\<rparr>) g request)"
    by (simp add: generateChatResponse_outcome store_irrelevant split: sum.splits)
  from total fb only store show ?thesis
    unfolding fallback_response_def chosen lang by blast
qed

theorem generateChatResponse_never_throws_witness:
  "openai demo_chat_world = Some (Rejected (Thrown ''429 rate limit''))
   \<and> outcome (generateChatResponse demo_chat_world (constant_source (1 / 2)) demo_chat_request)
       = Inr \<lparr>rs_message = ''I apologize, but I am unable to process your request at this time. ''
                             @ ''Please try again later or contact support for assistance.'',
              rs_conversationId = ''conv_4_abcdefghijklm'',
              rs_context = EmptyContext, rs_sources = [], rs_confidence = 0,
              rs_language = ''hi'',
              rs_processingTime = 6\<rparr>
   \<and> map_sum id rs_conversationId
         (outcome (generateChatResponse demo_chat_world (constant_source (1 / 2))
                     (demo_chat_request\<lparr>rq_conversationId := Some ''c1'', rq_language := None\<rparr>)))
       = Inr ''c1''
   \<and> map_sum id rs_language
         (outcome (generateChatResponse demo_chat_world (constant_source (1 / 2))
                     (demo_chat_request\<lparr>rq_conversationId := Some ''c1'', rq_language := None\<rparr>)))
       = Inr ''en''"
proof -
  let ?g = "constant_source (1 / 2)"
  have o: "openai demo_chat_world = Some (Rejected (Thrown ''429 rate limit''))"
    by (simp add: demo_chat_world_def)
  have v: "now_id demo_chat_world = 4" "now_start demo_chat_world = 3" "now_end demo_chat_world = 9"
    "toString36 demo_chat_world (draws ?g (used ?g)) = ''0.abcdefghijklmnopq''"
    by (simp_all add: demo_chat_world_def)
  have four: "show_nat 4 = ''4''"
    by (simp add: show_nat_digit)
  have r: "rq_conversationId demo_chat_request = None" "rq_language demo_chat_request = Some ''hi''"
    by (simp_all add: demo_chat_request_def)
  from generateChatResponse_never_throws
    [of demo_chat_world ?g demo_chat_request "Thrown ''429 rate limit''"] o
  have first: "outcome (generateChatResponse demo_chat_world ?g demo_chat_request)
       = Inr \<lparr>rs_message = ''I apologize, but I am unable to process your request at this time. ''
                             @ ''Please try again later or contact support for assistance.'',
              rs_conversationId = ''conv_4_abcdefghijklm'',
              rs_context = EmptyContext, rs_sources = [], rs_confidence = 0,
              rs_language = ''hi'',
              rs_processingTime = 6\<rparr>"
    by (simp add: r v four)
  from generateChatResponse_never_throws
    [of demo_chat_world ?g "demo_chat_request\<lparr>rq_conversationId := Some ''c1'', rq_language := None\<rparr>"
       "Thrown ''429 rate limit''"] o
  have second: "map_sum id rs_conversationId
         (outcome (generateChatResponse demo_chat_world ?g
                     (demo_chat_request\<lparr>rq_conversationId := Some ''c1'', rq_language := None\<rparr>)))
       = Inr ''c1''"
    "map_sum id rs_language
         (outcome (generateChatResponse demo_chat_world ?g
                     (demo_chat_request\<lparr>rq_conversationId := Some ''c1'', rq_language := None\<rparr>)))
       = Inr ''en''"
    by simp_all
  from o first second show ?thesis by blast
qed


end
